theory Spec2Isabelle
  imports Main
begin

section \<open>The publish client of obsidian-wordpress\<close>

text \<open>
  A shallow embedding of \<^verbatim>\<open>src/abstract-wp-client.ts\<close>, class
  \<^verbatim>\<open>AbstractWordPressClient\<close>. The source file holds an earlier revision of the class
  (without the publish lock and the name-based categories) ahead of the current one; the
  definitions follow the current revision, the second one in the file.

  Conventions of the embedding.
  \<^item> A JavaScript string is a \<open>string\<close> (a list of bytes);
    \<open>String.prototype.toLowerCase\<close>, which the bytes alone do not determine beyond
    ASCII, is a function of the record \<open>env\<close>.
  \<^item> A JavaScript number is an \<open>int option\<close>, \<open>None\<close> being \<open>NaN\<close>; fractions and
    the loss of precision above \<open>2 ^ 53\<close> are not modelled.
  \<^item> An optional property is an \<open>option\<close>, \<open>None\<close> being \<open>undefined\<close>; a YAML
    \<open>null\<close> is not modelled.
  \<^item> A remote call is a function of the record \<open>env\<close>; a call that rejects returns
    \<open>None\<close>. The answers do not change during one attempt.
  \<^item> A thrown \<open>Error\<close> is the left injection of a sum; whatever is thrown or rejected
    is an \<open>Error\<close>.
  \<^item> \<open>console.log\<close> and its relatives are left out; a \<open>Notice\<close> is an element of
    the list of notices that a function returns.
\<close>

subsection \<open>JavaScript values\<close>

type_synonym number = "int option"

definition truthy :: "string option \<Rightarrow> bool" where
  \<comment> \<open>The test \<open>if (s)\<close> on an optional string: \<open>undefined\<close> and \<open>""\<close> are falsy.\<close>
  "truthy s = (case s of None \<Rightarrow> False | Some v \<Rightarrow> v \<noteq> [])"

definition truthyNumber :: "number \<Rightarrow> bool" where
  \<comment> \<open>The test \<open>if (n)\<close> on a number: \<open>NaN\<close> and \<open>0\<close> are falsy.\<close>
  "truthyNumber n = (case n of None \<Rightarrow> False | Some v \<Rightarrow> v \<noteq> 0)"

definition strictEqNumber :: "number \<Rightarrow> number \<Rightarrow> bool" where
  \<comment> \<open>\<open>a === b\<close> on numbers: \<open>NaN\<close> equals nothing.\<close>
  "strictEqNumber a b = (case a of None \<Rightarrow> False | Some x \<Rightarrow> b = Some x)"

definition lowerChar :: "char \<Rightarrow> char" where
  "lowerChar c =
     (let n = (of_char c :: nat) in if 65 \<le> n \<and> n \<le> 90 then char_of (n + 32) else c)"

definition asciiLowerCase :: "string \<Rightarrow> string" where
  \<comment> \<open>The letters \<open>A\<close> to \<open>Z\<close> lowered, every other byte kept: how a regular
      expression with the flag \<open>i\<close> and no flag \<open>u\<close> compares the ASCII letters of
      its pattern.\<close>
  "asciiLowerCase s = map lowerChar s"

definition isWhiteSpace :: "char \<Rightarrow> bool" where
  "isWhiteSpace c = ((of_char c :: nat) \<in> {9, 10, 11, 12, 13, 32})"

definition isDigit :: "char \<Rightarrow> bool" where
  "isDigit c = (48 \<le> (of_char c :: nat) \<and> (of_char c :: nat) \<le> 57)"

fun digitsValue :: "int \<Rightarrow> string \<Rightarrow> int" where
  "digitsValue acc [] = acc"
| "digitsValue acc (c # cs) = digitsValue (acc * 10 + (int (of_char c) - 48)) cs"

definition parseInt :: "string \<Rightarrow> number" where
  \<comment> \<open>\<open>parseInt(s, 10)\<close>: leading white space, an optional sign, then the longest run of
      decimal digits; \<open>NaN\<close> when there is no digit.\<close>
  "parseInt s =
     (let t = dropWhile isWhiteSpace s;
          neg = (t \<noteq> [] \<and> hd t = CHR ''-'');
          u = (if t \<noteq> [] \<and> (hd t = CHR ''-'' \<or> hd t = CHR ''+'') then tl t else t);
          ds = takeWhile isDigit u
      in if ds = [] then None
         else Some (if neg then - digitsValue 0 ds else digitsValue 0 ds))"

fun string_of_nat :: "nat \<Rightarrow> string" where
  "string_of_nat n =
     (if n < 10 then [char_of (48 + n)]
      else string_of_nat (n div 10) @ [char_of (48 + n mod 10)])"

declare string_of_nat.simps [simp del]

definition String :: "number \<Rightarrow> string" where
  \<comment> \<open>\<open>String(n)\<close> on an integral number.\<close>
  "String n =
     (case n of None \<Rightarrow> ''NaN''
      | Some v \<Rightarrow> if v < 0 then CHR ''-'' # string_of_nat (nat (- v)) else string_of_nat (nat v))"

primrec uniq :: "'a list \<Rightarrow> 'a list" where
  \<comment> \<open>\<open>[...new Set(xs)]\<close>: the first occurrence of each element, in order.\<close>
  "uniq [] = []"
| "uniq (x # xs) = x # filter (\<lambda>y. y \<noteq> x) (uniq xs)"

subsection \<open>The data model\<close>

text \<open>An element of the untyped \<open>wp_categories\<close> array: a numeric ID or a name.\<close>

datatype cat_item = CId number | CName string

definition isString :: "cat_item \<Rightarrow> bool" where
  \<comment> \<open>\<open>typeof x === 'string'\<close>\<close>
  "isString x = (case x of CName _ \<Rightarrow> True | CId _ \<Rightarrow> False)"

definition isNumber :: "cat_item \<Rightarrow> bool" where
  \<comment> \<open>\<open>typeof x === 'number'\<close>\<close>
  "isNumber x = (case x of CId _ \<Rightarrow> True | CName _ \<Rightarrow> False)"

text \<open>
  Modelled from the spec: the type \<open>MatterData\<close> of \<^verbatim>\<open>types.ts\<close>, the metadata
  block of the document (section 3), restricted to the six keys that the class reads.
\<close>

record MatterData =
  wp_url :: "string option"
  wp_profile :: "string option"
  wp_ptype :: "string option"
  wp_categories :: "cat_item list option"
  wp_tags :: "string list option"
  wp_title :: "string option"

text \<open>Modelled from the spec: the type \<open>Term\<close> of \<^verbatim>\<open>wp-api.ts\<close>, a remote term.\<close>

record Term =
  term_id :: string
  term_name :: string

text \<open>Modelled from the spec: \<open>WordPressAuthParams\<close>, the user name and the password.\<close>

type_synonym WordPressAuthParams = "string option \<times> string option"

text \<open>Modelled from the spec: \<open>WpProfile\<close>, a named remote target.\<close>

record WpProfile =
  name :: string
  endpoint :: string
  username :: "string option"
  password :: "string option"
  lastSelectedCategories :: "cat_item list option"

text \<open>Modelled from the spec: \<open>WordPressPostParams\<close>, the request in flight.\<close>

record WordPressPostParams =
  status :: string
  commentStatus :: string
  postType :: string
  categories :: "cat_item list"
  tags :: "string list"
  title :: string
  content :: string
  postId :: "string option"
  profileName :: "string option"

text \<open>Modelled from the spec: the data of a \<open>WordPressPublishResult\<close>.\<close>

record WordPressPublishResult =
  data_postId :: "string option"
  data_postUrl :: "string option"
  data_categories :: "cat_item list"

text \<open>The notices shown to the user, and the errors thrown.\<close>

datatype error =
    PublishInProgress
      \<comment> \<open>\<open>A publish operation is already in progress. Please wait for it to complete.\<close>\<close>
  | NoEndpoint
  | NoActiveFile
  | InvalidUser
  | Rejected
      \<comment> \<open>a remote call or a modal that rejects\<close>
  | FrontmatterParsingFailed
  | PublishFailed string string
  | MessagePublishFailed
  | URIError

datatype notice =
    CategoriesNotFound "cat_item list"
      \<comment> \<open>\<open>Categories not found: a, b. Using "Uncategorized" instead.\<close>\<close>
  | ErrorNotice error
  | PublishSuccessfully
  | MediaServerError string
  | MediaUploadFailed string

datatype returnCode = OK | Error | ServerInternalError

datatype ConfirmCode = Cancel | Confirm

datatype 'a WordPressClientResult = ResultOK 'a | ResultError string string

text \<open>A local binary that a link resolves to: its name and its bytes.\<close>

type_synonym imgFile = "string \<times> string"

text \<open>The argument of \<open>uploadMedia\<close>: MIME type, file name, bytes.\<close>

type_synonym Media = "string \<times> string \<times> string"

datatype uploadResult = UploadOK string | UploadError returnCode string

text \<open>
  The abstract methods of the class, the settings of the plugin and the collaborators
  that the class calls (the modals, the platform's \<open>URL\<close> and \<open>decodeURI\<close>, the
  vault, \<open>String.prototype.toLowerCase\<close>). \<open>None\<close> is a call that rejects or
  throws. \<open>newURL\<close> gives the search
  parameter \<open>p\<close> and the path name of a URL; \<open>publishModal\<close> gives the submissions
  that the user makes in the publish modal, in order, each with its parameters and its
  \<open>updateMatterData\<close> callback, before closing it.
\<close>

record env =
  publish :: "string \<Rightarrow> string \<Rightarrow> WordPressPostParams \<Rightarrow> WordPressAuthParams
    \<Rightarrow> WordPressPublishResult WordPressClientResult option"
  getCategories :: "WordPressAuthParams \<Rightarrow> Term list option"
  getPostTypes :: "WordPressAuthParams \<Rightarrow> string list option"
  validateUser :: "WordPressAuthParams \<Rightarrow> returnCode option"
  getTag :: "string \<Rightarrow> WordPressAuthParams \<Rightarrow> Term option"
  uploadMedia :: "Media \<Rightarrow> WordPressAuthParams \<Rightarrow> uploadResult option"
  needLogin :: bool
  getPostsBySlug :: "string \<Rightarrow> string list option"
  openLoginModal :: "WordPressAuthParams option"
  openConfirmModal :: ConfirmCode
  publishModal :: "Term list \<Rightarrow> cat_item list \<Rightarrow> string list \<Rightarrow> string \<Rightarrow> MatterData
    \<Rightarrow> (WordPressPostParams \<times> (MatterData \<Rightarrow> MatterData)) list"
  newURL :: "string \<Rightarrow> (string option \<times> string) option"
  decodeURI :: "string \<Rightarrow> string option"
  toLowerCase :: "string \<Rightarrow> string"
  isValidUrl :: "string \<Rightarrow> bool"
  getFirstLinkpathDest :: "string \<Rightarrow> string \<Rightarrow> imgFile option"
  detectFile :: "string \<Rightarrow> string option"
  render :: "string \<Rightarrow> string"
  defaultPostStatus :: string
  defaultCommentStatus :: string
  rememberLastSelectedCategories :: bool
  replaceMediaLinks :: bool
  WP_DEFAULT_PROFILE_NAME :: string

text \<open>Modelled from the spec: \<open>PostTypeConst.Post\<close>, the well-known "post" type.\<close>

definition PostTypeConst_Post :: string where
  "PostTypeConst_Post = ''post''"

text \<open>
  An awaited call followed by the rest of the function: an error thrown by the call
  ends the function, the notices of both are shown in order.
\<close>

definition andThen :: "(error + 'a) \<times> notice list \<Rightarrow> ('a \<Rightarrow> (error + 'b) \<times> notice list)
    \<Rightarrow> (error + 'b) \<times> notice list" where
  "andThen m f =
     (case m of
        (Inl e, ns) \<Rightarrow> (Inl e, ns)
      | (Inr a, ns) \<Rightarrow> (case f a of (r, ns') \<Rightarrow> (r, ns @ ns')))"

definition getAuth :: "env \<Rightarrow> WpProfile \<Rightarrow> (error + WordPressAuthParams) \<times> notice list" where
  \<comment> \<open>Stored credentials are validated; when they are rejected, or the validation
      throws, the error is shown and the login modal gives the credentials.\<close>
  "getAuth cl profile =
     (if needLogin cl \<and> truthy (username profile) \<and> truthy (password profile) then
        (case validateUser cl (username profile, password profile) of
           Some OK \<Rightarrow> (Inr (username profile, password profile), [])
         | other \<Rightarrow>
             (let shown = [ErrorNotice (if other = None then Rejected else InvalidUser)]
              in case openLoginModal cl of
                   None \<Rightarrow> (Inl Rejected, shown)
                 | Some auth \<Rightarrow> (Inr auth, shown)))
      else (Inr (None, None), []))"

subsection \<open>The term resolver\<close>

definition findByName :: "env \<Rightarrow> Term list \<Rightarrow> cat_item \<Rightarrow> Term option option" where
  \<comment> \<open>\<open>allCategories.find(cat => cat.name.toLowerCase() === name.toLowerCase())\<close>.
      The callback runs once for each category until one matches; on a \<open>name\<close> that is
      a number it throws a \<open>TypeError\<close> (the outer \<open>None\<close>).\<close>
  "findByName cl allCategories nm =
     (case nm of
        CName n \<Rightarrow>
          Some (find (\<lambda>cat. toLowerCase cl (term_name cat) = toLowerCase cl n) allCategories)
      | CId _ \<Rightarrow> if allCategories = [] then Some None else None)"

fun namesLoop :: "env \<Rightarrow> Term list \<Rightarrow> cat_item list \<Rightarrow> number list \<Rightarrow> cat_item list
    \<Rightarrow> (number list \<times> cat_item list) option" where
  \<comment> \<open>The \<open>for\<close> loop of \<open>convertCategoryNamesToIds\<close> over \<open>categoryIds\<close> and
      \<open>missingCategories\<close>.\<close>
  "namesLoop cl allCategories [] categoryIds missingCategories =
     Some (categoryIds, missingCategories)"
| "namesLoop cl allCategories (nm # rest) categoryIds missingCategories =
     (case findByName cl allCategories nm of
        None \<Rightarrow> None
      | Some (Some category) \<Rightarrow>
          namesLoop cl allCategories rest (categoryIds @ [parseInt (term_id category)])
            missingCategories
      | Some None \<Rightarrow>
          namesLoop cl allCategories rest (categoryIds @ [Some 1]) (missingCategories @ [nm]))"

definition convertCategoryNamesToIds ::
    "env \<Rightarrow> cat_item list \<Rightarrow> WordPressAuthParams \<Rightarrow> number list \<times> notice list" where
  "convertCategoryNamesToIds cl categoryNames auth =
     (case getCategories cl auth of
        None \<Rightarrow> ([Some 1], [])
      | Some allCategories \<Rightarrow>
          (case namesLoop cl allCategories categoryNames [] [] of
             None \<Rightarrow> ([Some 1], [])
           | Some (categoryIds, missingCategories) \<Rightarrow>
               (let uniqueIds = uniq categoryIds
                in (if length uniqueIds > 0 then uniqueIds else [Some 1],
                    if length missingCategories > 0
                    then [CategoriesNotFound missingCategories] else []))))"

fun idsLoop :: "Term list \<Rightarrow> cat_item list \<Rightarrow> string list \<Rightarrow> string list" where
  \<comment> \<open>The \<open>for\<close> loop of \<open>convertCategoryIdsToNames\<close>; an \<open>id\<close> that is a string is
      strictly equal to no number.\<close>
  "idsLoop allCategories [] categoryNames = categoryNames"
| "idsLoop allCategories (i # rest) categoryNames =
     (case find (\<lambda>cat. case i of CId n \<Rightarrow> strictEqNumber (parseInt (term_id cat)) n
                              | CName _ \<Rightarrow> False) allCategories of
        Some category \<Rightarrow> idsLoop allCategories rest (categoryNames @ [term_name category])
      | None \<Rightarrow> idsLoop allCategories rest categoryNames)"

definition convertCategoryIdsToNames ::
    "env \<Rightarrow> cat_item list \<Rightarrow> WordPressAuthParams \<Rightarrow> string list" where
  "convertCategoryIdsToNames cl categoryIds auth =
     (case getCategories cl auth of
        None \<Rightarrow> [''Uncategorized'']
      | Some allCategories \<Rightarrow>
          (let categoryNames = idsLoop allCategories categoryIds []
           in if length categoryNames > 0 then categoryNames else [''Uncategorized'']))"

subsection \<open>Strings\<close>

fun splitOn :: "char \<Rightarrow> string \<Rightarrow> string \<Rightarrow> string list" where
  \<comment> \<open>\<open>s.split(c)\<close>, with the piece read so far.\<close>
  "splitOn sep cur [] = [cur]"
| "splitOn sep cur (c # cs) =
     (if c = sep then cur # splitOn sep [] cs else splitOn sep (cur @ [c]) cs)"

definition split :: "string \<Rightarrow> char \<Rightarrow> string list" where
  "split s sep = splitOn sep [] s"

definition endsWith :: "string \<Rightarrow> string \<Rightarrow> bool" where
  "endsWith s suffix = (length suffix \<le> length s \<and> drop (length s - length suffix) s = suffix)"

definition stripExtension :: "string \<Rightarrow> string" where
  \<comment> \<open>\<open>slug.replace(/\.(html|php|htm)$/i, '')\<close>\<close>
  "stripExtension slug =
     (if endsWith (asciiLowerCase slug) ''.html'' then take (length slug - 5) slug
      else if endsWith (asciiLowerCase slug) ''.php'' \<or> endsWith (asciiLowerCase slug) ''.htm''
      then take (length slug - 4) slug
      else slug)"

subsection \<open>From the stored URL to the post ID\<close>

definition getPostIdBySlug :: "env \<Rightarrow> string \<Rightarrow> number option" where
  \<comment> \<open>\<open>None\<close> is \<open>null\<close>. The base class's \<open>getPostsBySlug\<close> returns \<open>[]\<close>; a
      subclass may override it.\<close>
  "getPostIdBySlug cl slug =
     (case getPostsBySlug cl slug of
        None \<Rightarrow> None
      | Some response \<Rightarrow>
          (case response of [] \<Rightarrow> None | first # _ \<Rightarrow> Some (parseInt first)))"

definition extractPostIdFromUrl :: "env \<Rightarrow> string \<Rightarrow> number option" where
  \<comment> \<open>\<open>None\<close> is \<open>null\<close>; a URL that does not parse throws, and the error is caught.\<close>
  "extractPostIdFromUrl cl url =
     (case newURL cl url of
        None \<Rightarrow> None
      | Some (postIdParam, pathname) \<Rightarrow>
          if truthy postIdParam then
            Some (parseInt (case postIdParam of Some p \<Rightarrow> p | None \<Rightarrow> []))
          else
            (let segments = filter (\<lambda>segment. length segment > 0) (split pathname CHR ''/'')
             in if length segments = 0 then None
                else (let slug = stripExtension (last segments)
                      in if length slug = 0 then None else getPostIdBySlug cl slug)))"

subsection \<open>The profile check and the classification\<close>

definition checkExistingProfile :: "env \<Rightarrow> WpProfile \<Rightarrow> MatterData \<Rightarrow> MatterData" where
  \<comment> \<open>The function mutates \<open>matterData\<close>, the copy in memory; the model returns it.\<close>
  "checkExistingProfile cl profile matterData =
     (let isProfileNameMismatch =
            (truthy (wp_profile matterData) \<and> wp_profile matterData \<noteq> Some (name profile))
      in if isProfileNameMismatch then
           (if openConfirmModal cl \<noteq> Cancel then
              (case lastSelectedCategories profile of
                 Some (c # cs) \<Rightarrow>
                   matterData\<lparr>wp_url := None, wp_categories := Some (c # cs)\<rparr>
               | _ \<Rightarrow>
                   matterData\<lparr>wp_url := None, wp_categories := Some [CId (Some 1)]\<rparr>)
            else matterData)
         else matterData)"

definition hasExistingPost :: "MatterData \<Rightarrow> bool" where
  \<comment> \<open>\<open>matterData.wp_url && matterData.wp_url.length > 0\<close>\<close>
  "hasExistingPost matterData =
     (truthy (wp_url matterData) \<and> (case wp_url matterData of Some u \<Rightarrow> length u > 0 | None \<Rightarrow> False))"

subsection \<open>Building the parameters from the metadata block\<close>

definition readTitleIdType ::
    "env \<Rightarrow> string \<Rightarrow> MatterData \<Rightarrow> WordPressPostParams \<Rightarrow> WordPressPostParams" where
  \<comment> \<open>\<open>readFromFrontMatter\<close> up to the test of the post type: the title, the post ID,
      the profile name and the post type.\<close>
  "readTitleIdType cl noteTitle matterData params =
     (let postParams = params\<lparr>title := noteTitle\<rparr>;
          postParams =
            (if truthy (wp_title matterData)
             then postParams\<lparr>title := (case wp_title matterData of Some t \<Rightarrow> t | None \<Rightarrow> [])\<rparr>
             else postParams);
          postParams =
            (if truthy (wp_url matterData) then
               (case extractPostIdFromUrl cl
                       (case wp_url matterData of Some url \<Rightarrow> url | None \<Rightarrow> []) of
                  Some n \<Rightarrow>
                    if truthyNumber n then postParams\<lparr>postId := Some (String n)\<rparr> else postParams
                | None \<Rightarrow> postParams)
             else postParams);
          postParams =
            postParams\<lparr>profileName :=
              Some (case wp_profile matterData of Some p \<Rightarrow> p | None \<Rightarrow> WP_DEFAULT_PROFILE_NAME cl)\<rparr>;
          postParams =
            (case wp_ptype matterData of
               Some t \<Rightarrow> postParams\<lparr>postType := t\<rparr>
             | None \<Rightarrow> postParams\<lparr>postType := PostTypeConst_Post\<rparr>)
      in postParams)"

definition readCategories ::
    "env \<Rightarrow> WpProfile \<Rightarrow> MatterData \<Rightarrow> WordPressPostParams
      \<Rightarrow> (error + WordPressPostParams) \<times> notice list" where
  \<comment> \<open>The block \<open>if (matterData.wp_categories !== undefined) { ... }\<close> of
      \<open>readFromFrontMatter\<close>.\<close>
  "readCategories cl profile matterData postParams =
     (case wp_categories matterData of
        None \<Rightarrow> (Inr postParams, [])
      | Some wpCategories \<Rightarrow>
          (case wpCategories of
             first # _ \<Rightarrow>
               if isString first then
                 andThen (getAuth cl profile) (\<lambda>auth.
                   case convertCategoryNamesToIds cl wpCategories auth of
                     (ids, shown) \<Rightarrow> (Inr (postParams\<lparr>categories := map CId ids\<rparr>), shown))
               else (Inr (postParams\<lparr>categories := wpCategories\<rparr>), [])
           | [] \<Rightarrow>
               (case lastSelectedCategories profile of
                  Some (c # cs) \<Rightarrow>
                    if isString c then
                      andThen (getAuth cl profile) (\<lambda>auth.
                        case convertCategoryNamesToIds cl (c # cs) auth of
                          (ids, shown) \<Rightarrow> (Inr (postParams\<lparr>categories := map CId ids\<rparr>), shown))
                    else (Inr (postParams\<lparr>categories := c # cs\<rparr>), [])
                | _ \<Rightarrow> (Inr (postParams\<lparr>categories := [CId (Some 1)]\<rparr>), []))))"

definition readFromFrontMatter ::
    "env \<Rightarrow> WpProfile \<Rightarrow> string \<Rightarrow> MatterData \<Rightarrow> WordPressPostParams
      \<Rightarrow> (error + WordPressPostParams) \<times> notice list" where
  "readFromFrontMatter cl profile noteTitle matterData params =
     (let postParams = readTitleIdType cl noteTitle matterData params
      in if postType postParams = PostTypeConst_Post then
           andThen (readCategories cl profile matterData postParams)
             (\<lambda>postParams.
                (Inr (case wp_tags matterData of
                        Some t \<Rightarrow> postParams\<lparr>tags := t\<rparr>
                      | None \<Rightarrow> postParams), []))
         else (Inr postParams, []))"

subsection \<open>The metadata merge\<close>

definition frontMatterPolicy ::
    "WpProfile \<Rightarrow> WordPressPostParams \<Rightarrow> WordPressPublishResult \<Rightarrow> string
      \<Rightarrow> string list option \<Rightarrow> string list option \<Rightarrow> string list option
      \<Rightarrow> string list option \<Rightarrow> MatterData \<Rightarrow> MatterData" where
  \<comment> \<open>The function passed to \<open>processFrontMatter\<close>, up to the call of
      \<open>updateMatterData\<close>. \<open>postParams.tags\<close> is never \<open>undefined\<close>, so the branch
      that would keep the stored tags is not reached.\<close>
  "frontMatterPolicy profile postParams data basename categoryNamesForNewPost
       categoryNamesForExisting categoryNamesForUpdate originalTagNames fm0 =
     (let preserved = fm0;
          fm = fm0\<lparr>wp_profile := Some (name profile)\<rparr>;
          fm =
            (if truthy (wp_url preserved) then fm\<lparr>wp_url := wp_url preserved\<rparr>
             else if truthy (data_postUrl data) then fm\<lparr>wp_url := data_postUrl data\<rparr>
             else if truthy (data_postId data) then
               fm\<lparr>wp_url := Some (endpoint profile @ ''/?p=''
                        @ (case data_postId data of Some i \<Rightarrow> i | None \<Rightarrow> []))\<rparr>
             else fm);
          fm =
            (case wp_ptype preserved of
               Some t \<Rightarrow> fm\<lparr>wp_ptype := Some t\<rparr>
             | None \<Rightarrow>
                 if postType postParams \<noteq> [] then fm\<lparr>wp_ptype := Some (postType postParams)\<rparr>
                 else fm);
          fm =
            (case categoryNamesForNewPost of
               Some names \<Rightarrow> fm\<lparr>wp_categories := Some (map CName names)\<rparr>
             | None \<Rightarrow>
                 (case categoryNamesForExisting of
                    Some names \<Rightarrow> fm\<lparr>wp_categories := Some (map CName names)\<rparr>
                  | None \<Rightarrow>
                      (case categoryNamesForUpdate of
                         Some names \<Rightarrow> fm\<lparr>wp_categories := Some (map CName names)\<rparr>
                       | None \<Rightarrow>
                           if length (categories postParams) > 0
                           then fm\<lparr>wp_categories := Some (categories postParams)\<rparr>
                           else (case wp_categories preserved of
                                   Some c \<Rightarrow> fm\<lparr>wp_categories := Some c\<rparr>
                                 | None \<Rightarrow> fm))));
          fm =
            (case originalTagNames of
               Some names \<Rightarrow> fm\<lparr>wp_tags := Some names\<rparr>
             | None \<Rightarrow> fm\<lparr>wp_tags := Some (tags postParams)\<rparr>);
          fm =
            (case wp_title preserved of
               Some t \<Rightarrow> fm\<lparr>wp_title := Some t\<rparr>
             | None \<Rightarrow>
                 if title postParams \<noteq> [] \<and> title postParams \<noteq> basename
                 then fm\<lparr>wp_title := Some (title postParams)\<rparr>
                 else fm)
      in fm)"

definition processFrontMatterCallback ::
    "WpProfile \<Rightarrow> WordPressPostParams \<Rightarrow> WordPressPublishResult \<Rightarrow> string
      \<Rightarrow> string list option \<Rightarrow> string list option \<Rightarrow> string list option
      \<Rightarrow> string list option \<Rightarrow> (MatterData \<Rightarrow> MatterData) option \<Rightarrow> MatterData \<Rightarrow> MatterData" where
  \<comment> \<open>The whole function passed to \<open>processFrontMatter\<close>: the policy, then the
      caller's \<open>updateMatterData\<close> when there is one.\<close>
  "processFrontMatterCallback profile postParams data basename categoryNamesForNewPost
       categoryNamesForExisting categoryNamesForUpdate originalTagNames updateMatterData fm =
     (let merged = frontMatterPolicy profile postParams data basename categoryNamesForNewPost
                     categoryNamesForExisting categoryNamesForUpdate originalTagNames fm
      in case updateMatterData of None \<Rightarrow> merged | Some update \<Rightarrow> update merged)"

definition earlierUrlRule :: "WpProfile \<Rightarrow> WordPressPublishResult \<Rightarrow> MatterData \<Rightarrow> MatterData" where
  \<comment> \<open>The rule for \<open>wp_url\<close> in the earlier revision of \<open>tryToPublish\<close>, the first copy
      of the class in the source file, which the current revision replaces.\<close>
  "earlierUrlRule profile data fm =
     (if truthy (data_postId data) \<and> truthy (data_postUrl data)
      then fm\<lparr>wp_url := data_postUrl data\<rparr>
      else if truthy (data_postId data) \<and> \<not> truthy (wp_url fm)
      then fm\<lparr>wp_url := Some (endpoint profile @ ''/?p=''
                     @ (case data_postId data of Some i \<Rightarrow> i | None \<Rightarrow> []))\<rparr>
      else fm)"

definition convertForFrontMatter ::
    "env \<Rightarrow> WpProfile \<Rightarrow> cat_item list \<Rightarrow> string list option \<times> notice list" where
  \<comment> \<open>\<open>try { auth = await this.getAuth(); names = await this.convertCategoryIdsToNames(ids, auth) }
      catch { }\<close>: the names stay \<open>undefined\<close> when \<open>getAuth\<close> throws.\<close>
  "convertForFrontMatter cl profile ids =
     (case getAuth cl profile of
        (Inr auth, shown) \<Rightarrow> (Some (convertCategoryIdsToNames cl ids auth), shown)
      | (Inl _, shown) \<Rightarrow> (None, shown))"

definition categoryNamesForNewPost ::
    "env \<Rightarrow> WpProfile \<Rightarrow> WordPressPostParams \<Rightarrow> string list option \<times> notice list" where
  "categoryNamesForNewPost cl profile postParams =
     (if length (categories postParams) > 0
      then convertForFrontMatter cl profile (categories postParams)
      else (None, []))"

definition categoryNamesForExisting ::
    "env \<Rightarrow> WpProfile \<Rightarrow> MatterData \<Rightarrow> string list option \<times> notice list" where
  \<comment> \<open>From the block that \<open>processFile\<close> reads just before the merge.\<close>
  "categoryNamesForExisting cl profile currentMatter =
     (case wp_categories currentMatter of
        Some (first # rest) \<Rightarrow>
          if isNumber first then convertForFrontMatter cl profile (first # rest) else (None, [])
      | _ \<Rightarrow> (None, []))"

subsection \<open>The image references of a body\<close>

text \<open>
  The two regular expressions of \<open>getImages\<close> are matched by hand. In both, what
  follows the optional size annotation starts with \<open>]\<close>, which is neither a digit,
  nor \<open>x\<close>, nor \<open>|\<close>; so of all the ways the backtracking matcher can read the
  annotation only the longest one can be followed by a match, and \<open>sizeAnnotation\<close>
  gives that one. \<open>.\<close> matches any character but a line terminator; the two line
  terminators beyond ASCII are not modelled.
\<close>

record Image =
  original :: string
  src :: string
  altText :: "string option"
  width :: "string option"
  height :: "string option"
  srcIsUrl :: bool
  startIndex :: nat
  endIndex :: nat

definition startsWith :: "string \<Rightarrow> string \<Rightarrow> bool" where
  "startsWith s p = (take (length p) s = p)"

definition isLineTerminator :: "char \<Rightarrow> bool" where
  "isLineTerminator c = (c = CHR 0x0A \<or> c = CHR 0x0D)"

definition sizeAnnotation :: "string \<Rightarrow> (string \<times> string option \<times> string) option" where
  \<comment> \<open>\<open>\|(\d+)(?:x(\d+))?\<close> at the head of \<open>s\<close>: width, height, the rest.\<close>
  "sizeAnnotation s =
     (case s of
        [] \<Rightarrow> None
      | c # r \<Rightarrow>
          if c = CHR ''|'' \<and> takeWhile isDigit r \<noteq> [] then
            (let w = takeWhile isDigit r; r1 = dropWhile isDigit r
             in case r1 of
                  [] \<Rightarrow> Some (w, None, r1)
                | x # r2 \<Rightarrow>
                    if x = CHR ''x'' \<and> takeWhile isDigit r2 \<noteq> []
                    then Some (w, Some (takeWhile isDigit r2), dropWhile isDigit r2)
                    else Some (w, None, r1))
          else None)"

definition linkTarget :: "string \<Rightarrow> (string \<times> string) option" where
  \<comment> \<open>\<open>(.*?)\)\<close> at the head of \<open>s\<close>: the target, the rest.\<close>
  "linkTarget s =
     (let stop = (\<lambda>c. c = CHR '')'' \<or> isLineTerminator c)
      in case dropWhile (\<lambda>c. \<not> stop c) s of
           [] \<Rightarrow> None
         | c # r \<Rightarrow> if c = CHR '')'' then Some (takeWhile (\<lambda>c. \<not> stop c) s, r) else None)"

definition linkTail ::
    "string \<Rightarrow> (string option \<times> string option \<times> string \<times> string) option" where
  \<comment> \<open>\<open>(?:\|(\d+)(?:x(\d+))?)?]\((.*?)\)\<close> at the head of \<open>s\<close>\<close>
  "linkTail s =
     (case sizeAnnotation s of
        Some (w, h, r) \<Rightarrow>
          if startsWith r ''](''
          then map_option (\<lambda>(target, rest). (Some w, h, target, rest)) (linkTarget (drop 2 r))
          else None
      | None \<Rightarrow>
          if startsWith s ''](''
          then map_option (\<lambda>(target, rest). (None, None, target, rest)) (linkTarget (drop 2 s))
          else None)"

definition embedTail :: "string \<Rightarrow> (string option \<times> string option \<times> string) option" where
  \<comment> \<open>\<open>(?:\|(\d+)(?:x(\d+))?)?]]\<close> at the head of \<open>s\<close>\<close>
  "embedTail s =
     (case sizeAnnotation s of
        Some (w, h, r) \<Rightarrow> if startsWith r '']]'' then Some (Some w, h, drop 2 r) else None
      | None \<Rightarrow> if startsWith s '']]'' then Some (None, None, drop 2 s) else None)"

fun lazyLink ::
    "string \<Rightarrow> string \<Rightarrow> (string \<times> string option \<times> string option \<times> string \<times> string) option" where
  \<comment> \<open>The lazy \<open>(.*?)\<close> of the alternative text: the shortest text that the tail follows.\<close>
  "lazyLink alt [] = None"
| "lazyLink alt (c # cs) =
     (case linkTail (c # cs) of
        Some (w, h, target, rest) \<Rightarrow> Some (alt, w, h, target, rest)
      | None \<Rightarrow> if isLineTerminator c then None else lazyLink (alt @ [c]) cs)"

fun lazyEmbed ::
    "string \<Rightarrow> string \<Rightarrow> (string \<times> string option \<times> string option \<times> string) option" where
  "lazyEmbed source [] = None"
| "lazyEmbed source (c # cs) =
     (case embedTail (c # cs) of
        Some (w, h, rest) \<Rightarrow> Some (source, w, h, rest)
      | None \<Rightarrow> if isLineTerminator c then None else lazyEmbed (source @ [c]) cs)"

definition matchLink :: "env \<Rightarrow> nat \<Rightarrow> string \<Rightarrow> (Image \<times> nat) option" where
  \<comment> \<open>\<open>/(!\[(.*?)(?:\|(\d+)(?:x(\d+))?)?]\((.*?)\))/\<close> at index \<open>i\<close>, where \<open>s\<close>
      starts: the image and the length of the match. \<open>match.length\<close> is 6.\<close>
  "matchLink cl i s =
     (if startsWith s ''!['' then
        (case lazyLink [] (drop 2 s) of
           Some (alt, w, h, target, rest) \<Rightarrow>
             Some (\<lparr>original = take (length s - length rest) s, src = target,
                     altText = Some alt, width = w, height = h, srcIsUrl = isValidUrl cl target,
                     startIndex = i, endIndex = i + 6\<rparr>,
                   length s - length rest)
         | None \<Rightarrow> None)
      else None)"

definition matchEmbed :: "env \<Rightarrow> nat \<Rightarrow> string \<Rightarrow> (Image \<times> nat) option" where
  \<comment> \<open>\<open>/(!\[\[(.*?)(?:\|(\d+)(?:x(\d+))?)?]])/\<close> at index \<open>i\<close>. \<open>match.length\<close> is 5.\<close>
  "matchEmbed cl i s =
     (if startsWith s ''![['' then
        (case lazyEmbed [] (drop 3 s) of
           Some (source, w, h, rest) \<Rightarrow>
             Some (\<lparr>original = take (length s - length rest) s, src = source,
                     altText = None, width = w, height = h, srcIsUrl = isValidUrl cl source,
                     startIndex = i, endIndex = i + 5\<rparr>,
                   length s - length rest)
         | None \<Rightarrow> None)
      else None)"

fun execAll :: "(nat \<Rightarrow> string \<Rightarrow> (Image \<times> nat) option) \<Rightarrow> nat \<Rightarrow> nat \<Rightarrow> string
    \<Rightarrow> Image list" where
  \<comment> \<open>\<open>while ((match = regex.exec(content)) !== null)\<close> with a global expression: the
      matches from left to right, each search starting where the last match ended.
      \<open>skip\<close> counts the characters of the last match still to pass.\<close>
  "execAll m skip i [] = []"
| "execAll m skip i (c # cs) =
     (if skip > 0 then execAll m (skip - 1) (i + 1) cs
      else (case m i (c # cs) of
              Some (img, n) \<Rightarrow> img # execAll m (n - 1) (i + 1) cs
            | None \<Rightarrow> execAll m 0 (i + 1) cs))"

definition getImages :: "env \<Rightarrow> string \<Rightarrow> Image list" where
  "getImages cl text =
     execAll (matchLink cl) 0 0 text @ execAll (matchEmbed cl) 0 0 text"

subsection \<open>The media relay\<close>

fun indexOf :: "string \<Rightarrow> string \<Rightarrow> string \<Rightarrow> (string \<times> string) option" where
  \<comment> \<open>The first occurrence of \<open>pat\<close>: what precedes it and what follows it.\<close>
  "indexOf pat preceding [] = (if pat = [] then Some (preceding, []) else None)"
| "indexOf pat preceding (c # cs) =
     (if startsWith (c # cs) pat then Some (preceding, drop (length pat) (c # cs))
      else indexOf pat (preceding @ [c]) cs)"

fun getSubstitution :: "string \<Rightarrow> string \<Rightarrow> string \<Rightarrow> string \<Rightarrow> string" where
  \<comment> \<open>The replacement patterns of \<open>String.prototype.replace\<close> for a pattern that is
      a string: \<open>$$\<close>, \<open>$&\<close>, \<open>$`\<close> and \<open>$'\<close>.\<close>
  "getSubstitution matched preceding following [] = []"
| "getSubstitution matched preceding following [c] = [c]"
| "getSubstitution matched preceding following (c # d # r) =
     (if c = CHR ''$'' \<and> d = CHR ''$'' then CHR ''$'' # getSubstitution matched preceding following r
      else if c = CHR ''$'' \<and> d = CHR ''&'' then matched @ getSubstitution matched preceding following r
      else if c = CHR ''$'' \<and> d = CHR 0x60 then preceding @ getSubstitution matched preceding following r
      else if c = CHR ''$'' \<and> d = CHR 0x27 then following @ getSubstitution matched preceding following r
      else c # getSubstitution matched preceding following (d # r))"

definition replace :: "string \<Rightarrow> string \<Rightarrow> string \<Rightarrow> string" where
  \<comment> \<open>\<open>s.replace(pat, replacement)\<close> with a string \<open>pat\<close>: the first occurrence only.\<close>
  "replace s pat replacement =
     (case indexOf pat [] s of
        None \<Rightarrow> s
      | Some (preceding, following) \<Rightarrow> preceding @ getSubstitution pat preceding following replacement @ following)"

definition remoteEmbed :: "Image \<Rightarrow> string \<Rightarrow> string" where
  \<comment> \<open>The three template literals of \<open>updatePostImages\<close>. A captured group is a
      string, truthy when it is not empty.\<close>
  "remoteEmbed img url =
     (if truthy (width img) \<and> truthy (height img) then
        ''![['' @ url @ ''|'' @ (case width img of Some w \<Rightarrow> w | None \<Rightarrow> [])
          @ ''x'' @ (case height img of Some h \<Rightarrow> h | None \<Rightarrow> []) @ '']]''
      else if truthy (width img) then
        ''![['' @ url @ ''|'' @ (case width img of Some w \<Rightarrow> w | None \<Rightarrow> []) @ '']]''
      else ''![['' @ url @ '']]'')"

fun imagesLoop :: "env \<Rightarrow> WordPressAuthParams \<Rightarrow> Image list \<Rightarrow> string
    \<Rightarrow> (error + string) \<times> notice list" where
  \<comment> \<open>The \<open>for\<close> loop of \<open>updatePostImages\<close> over \<open>postParams.content\<close>.\<close>
  "imagesLoop cl auth [] text = (Inr text, [])"
| "imagesLoop cl auth (img # rest) text =
     (if \<not> srcIsUrl img then
        (case decodeURI cl (src img) of
           None \<Rightarrow> (Inl URIError, [])
         | Some decoded \<Rightarrow>
             (case getFirstLinkpathDest cl decoded (last (split decoded CHR ''/'')) of
                None \<Rightarrow> imagesLoop cl auth rest text
              | Some (fileName, bytes) \<Rightarrow>
                  (case uploadMedia cl
                          (case detectFile cl bytes of
                             Some mimeType \<Rightarrow> mimeType
                           | None \<Rightarrow> ''application/octet-stream'',
                           fileName, bytes) auth of
                     None \<Rightarrow> (Inl Rejected, [])
                   | Some (UploadOK url) \<Rightarrow>
                       imagesLoop cl auth rest (replace text (original img) (remoteEmbed img url))
                   | Some (UploadError code message) \<Rightarrow>
                       (case imagesLoop cl auth rest text of
                          (r, shown) \<Rightarrow>
                            (r, (if code = ServerInternalError then MediaServerError message
                                 else MediaUploadFailed fileName) # shown)))))
      else imagesLoop cl auth rest text)"

subsection \<open>The state that a publish attempt reads and writes\<close>

text \<open>
  The active file: its base name, its persisted metadata block, its body, whether the raw
  text holds one of \<open>wp_url:\<close>, \<open>wp_profile:\<close>, \<open>wp_ptype:\<close> and
  \<open>wp_categories:\<close>, and its size.
\<close>

record TFile =
  file_basename :: string
  file_matter :: MatterData
  file_body :: string
  file_wpKeysInText :: bool
  file_size :: nat

text \<open>
  The static lock of the class, the profile of the client, the active file and the text
  of the active editor (\<open>None\<close> without one), the notices shown so far and the calls of
  \<open>publish\<close> made so far (title, HTML, parameters).
\<close>

record world =
  publishInProgress :: bool
  clientProfile :: WpProfile
  activeFile :: "TFile option"
  activeEditor :: "string option"
  notices :: "notice list"
  publishCalls :: "(string \<times> string \<times> WordPressPostParams) list"

definition notify :: "notice list \<Rightarrow> world \<Rightarrow> world" where
  "notify shown w = w\<lparr>notices := notices w @ shown\<rparr>"

definition showError :: "error \<Rightarrow> world \<Rightarrow> world" where
  \<comment> \<open>Modelled from the spec: \<open>showError\<close> of \<^verbatim>\<open>utils.ts\<close> shows one notice
      describing the cause; the result it returns carries the error.\<close>
  "showError e w = notify [ErrorNotice e] w"

definition updatePostImages ::
    "env \<Rightarrow> WordPressAuthParams \<Rightarrow> WordPressPostParams \<Rightarrow> world
      \<Rightarrow> (error + WordPressPostParams) \<times> world" where
  \<comment> \<open>The function mutates \<open>postParams.content\<close>; the model returns the parameters.\<close>
  "updatePostImages cl auth postParams w =
     (case activeFile w of
        None \<Rightarrow> (Inl NoActiveFile, w)
      | Some _ \<Rightarrow>
          (case activeEditor w of
             None \<Rightarrow> (Inr postParams, w)
           | Some _ \<Rightarrow>
               (case imagesLoop cl auth (getImages cl (content postParams)) (content postParams) of
                  (Inl e, shown) \<Rightarrow> (Inl e, notify shown w)
                | (Inr text, shown) \<Rightarrow>
                    (Inr (postParams\<lparr>content := text\<rparr>),
                     (if replaceMediaLinks cl then (notify shown w)\<lparr>activeEditor := Some text\<rparr>
                      else notify shown w)))))"

definition getTags :: "env \<Rightarrow> string list \<Rightarrow> WordPressAuthParams \<Rightarrow> Term list" where
  \<comment> \<open>\<open>Promise.allSettled\<close>: the terms of the calls that are fulfilled.\<close>
  "getTags cl names certificate = List.map_filter (\<lambda>n. getTag cl n certificate) names"

definition rememberCategories :: "env \<Rightarrow> WordPressPublishResult \<Rightarrow> world \<Rightarrow> world" where
  \<comment> \<open>The block \<open>if (postId) { ... }\<close> at the end of \<open>tryToPublish\<close>.\<close>
  "rememberCategories cl data w =
     (if truthy (data_postId data) \<and> rememberLastSelectedCategories cl then
        (case getAuth cl (clientProfile w) of
           (Inr auth, shown) \<Rightarrow>
             (notify shown w)\<lparr>clientProfile := (clientProfile w)\<lparr>lastSelectedCategories :=
                Some (map CName (convertCategoryIdsToNames cl (data_categories data) auth))\<rparr>\<rparr>
         | (Inl _, shown) \<Rightarrow>
             (notify shown w)\<lparr>clientProfile := (clientProfile w)\<lparr>lastSelectedCategories :=
                Some (data_categories data)\<rparr>\<rparr>)
      else w)"

definition updateFrontMatter ::
    "env \<Rightarrow> WordPressPostParams \<Rightarrow> WordPressPublishResult \<Rightarrow> (MatterData \<Rightarrow> MatterData) option
      \<Rightarrow> string list option \<Rightarrow> world \<Rightarrow> world" where
  \<comment> \<open>The block \<open>if (file) { ... }\<close> of \<open>tryToPublish\<close>: the two conversions, then
      the atomic read-modify-write of the metadata block.\<close>
  "updateFrontMatter cl postParams data updateMatterData originalTagNames w =
     (case activeFile w of
        None \<Rightarrow> w
      | Some file \<Rightarrow>
          (case categoryNamesForNewPost cl (clientProfile w) postParams of
             (namesForNewPost, shown1) \<Rightarrow>
               (case categoryNamesForExisting cl (clientProfile w) (file_matter file) of
                  (namesForExisting, shown2) \<Rightarrow>
                    (notify (shown1 @ shown2) w)\<lparr>activeFile :=
                       Some (file\<lparr>file_matter :=
                         processFrontMatterCallback (clientProfile w) postParams data
                           (file_basename file) namesForNewPost namesForExisting namesForNewPost
                           originalTagNames updateMatterData (file_matter file)\<rparr>)\<rparr>)))"

definition tryToPublish ::
    "env \<Rightarrow> WordPressPostParams \<Rightarrow> WordPressAuthParams \<Rightarrow> (MatterData \<Rightarrow> MatterData) option
      \<Rightarrow> string list option \<Rightarrow> world \<Rightarrow> (error + WordPressPublishResult) \<times> world" where
  "tryToPublish cl postParams auth updateMatterData originalTagNames w =
     (let tagTerms = getTags cl (tags postParams) auth;
          postParams = postParams\<lparr>tags := map term_id tagTerms\<rparr>
      in case updatePostImages cl auth postParams w of
           (Inl e, w) \<Rightarrow> (Inl e, w)
         | (Inr postParams, w) \<Rightarrow>
             (let html = render cl (content postParams);
                  w = w\<lparr>publishCalls := publishCalls w @ [(title postParams, html, postParams)]\<rparr>
              in case publish cl (title postParams) html postParams auth of
                   None \<Rightarrow> (Inl Rejected, w)
                 | Some (ResultError code message) \<Rightarrow> (Inl (PublishFailed code message), w)
                 | Some (ResultOK data) \<Rightarrow>
                     (let w = notify [PublishSuccessfully] w;
                          w = updateFrontMatter cl postParams data updateMatterData
                                originalTagNames w;
                          w = rememberCategories cl data w
                      in (Inr data, w))))"

subsection \<open>The publish orchestrator\<close>

definition hasWpFrontmatterParsed :: "MatterData \<Rightarrow> bool" where
  \<comment> \<open>\<open>Object.keys(matterData).some(key => key.startsWith('wp_'))\<close>\<close>
  "hasWpFrontmatterParsed m =
     (wp_url m \<noteq> None \<or> wp_profile m \<noteq> None \<or> wp_ptype m \<noteq> None
      \<or> wp_categories m \<noteq> None \<or> wp_tags m \<noteq> None \<or> wp_title m \<noteq> None)"

definition orElse :: "'a option \<Rightarrow> 'a option \<Rightarrow> 'a option" where
  "orElse a b = (case a of Some v \<Rightarrow> Some v | None \<Rightarrow> b)"

definition objectAssign :: "MatterData \<Rightarrow> MatterData \<Rightarrow> MatterData" where
  \<comment> \<open>\<open>Object.assign(target, source)\<close>\<close>
  "objectAssign target source =
     \<lparr>wp_url = orElse (wp_url source) (wp_url target),
      wp_profile = orElse (wp_profile source) (wp_profile target),
      wp_ptype = orElse (wp_ptype source) (wp_ptype target),
      wp_categories = orElse (wp_categories source) (wp_categories target),
      wp_tags = orElse (wp_tags source) (wp_tags target),
      wp_title = orElse (wp_title source) (wp_title target)\<rparr>"

definition categoriesForAPI ::
    "env \<Rightarrow> WpProfile \<Rightarrow> MatterData \<Rightarrow> WordPressAuthParams \<Rightarrow> cat_item list \<times> notice list" where
  \<comment> \<open>The variable \<open>categoriesForAPI\<close> of \<open>publishPost\<close>; \<open>selectedCategories\<close>
      is computed by the same code.\<close>
  "categoriesForAPI cl profile matterData auth =
     (case wp_categories matterData of
        Some (first # rest) \<Rightarrow>
          if isString first then
            (case convertCategoryNamesToIds cl (first # rest) auth of
               (ids, shown) \<Rightarrow> (map CId ids, shown))
          else (first # rest, [])
      | _ \<Rightarrow>
          (case lastSelectedCategories profile of
             Some (c # cs) \<Rightarrow>
               if isString c then
                 (case convertCategoryNamesToIds cl (c # cs) auth of
                    (ids, shown) \<Rightarrow> (map CId ids, shown))
               else (c # cs, [])
           | _ \<Rightarrow> ([CId (Some 1)], [])))"

definition selectedCategories ::
    "env \<Rightarrow> WpProfile \<Rightarrow> MatterData \<Rightarrow> WordPressAuthParams \<Rightarrow> cat_item list \<times> notice list" where
  "selectedCategories = categoriesForAPI"

definition baseParams ::
    "env \<Rightarrow> WordPressPostParams option \<Rightarrow> MatterData \<Rightarrow> cat_item list \<Rightarrow> WordPressPostParams" where
  "baseParams cl defaultPostParams matterData forAPI =
     (case defaultPostParams of
        Some given \<Rightarrow> given
      | None \<Rightarrow>
          \<lparr>status = defaultPostStatus cl,
           commentStatus = defaultCommentStatus cl,
           postType = (case wp_ptype matterData of Some t \<Rightarrow> t | None \<Rightarrow> PostTypeConst_Post),
           categories = forAPI,
           tags = (case wp_tags matterData of Some t \<Rightarrow> t | None \<Rightarrow> []),
           title = [],
           content = [],
           postId = None,
           profileName = None\<rparr>)"

definition publishWithParams ::
    "env \<Rightarrow> WordPressPostParams option \<Rightarrow> WordPressAuthParams \<Rightarrow> string \<Rightarrow> string \<Rightarrow> MatterData
      \<Rightarrow> world \<Rightarrow> (error + WordPressPublishResult) \<times> world" where
  \<comment> \<open>The branch \<open>if (defaultPostParams || hasExistingPost)\<close>.\<close>
  "publishWithParams cl defaultPostParams auth noteTitle text matterData w =
     (case categoriesForAPI cl (clientProfile w) matterData auth of
        (forAPI, shown) \<Rightarrow>
          (case readFromFrontMatter cl (clientProfile w) noteTitle matterData
                  (baseParams cl defaultPostParams matterData forAPI) of
             (Inl e, shown') \<Rightarrow> (Inl e, notify (shown @ shown') w)
           | (Inr postParams, shown') \<Rightarrow>
               tryToPublish cl (postParams\<lparr>content := text\<rparr>) auth None
                 (Some (case wp_tags matterData of Some t \<Rightarrow> t | None \<Rightarrow> []))
                 (notify (shown @ shown') w)))"

fun modalSubmissions ::
    "env \<Rightarrow> WordPressAuthParams \<Rightarrow> string \<Rightarrow> string \<Rightarrow> MatterData
      \<Rightarrow> (WordPressPostParams \<times> (MatterData \<Rightarrow> MatterData)) list \<Rightarrow> world
      \<Rightarrow> WordPressPublishResult option \<times> world" where
  \<comment> \<open>The callback of the publish modal, once for each submission. A submission that
      succeeds closes the modal and resolves the promise; one that fails shows the error
      and leaves the modal open; when the user closes the modal the promise stays pending
      (\<open>None\<close>).\<close>
  "modalSubmissions cl auth noteTitle text matterData [] w = (None, w)"
| "modalSubmissions cl auth noteTitle text matterData ((given, updateMatterData) # later) w =
     (case readFromFrontMatter cl (clientProfile w) noteTitle matterData given of
        (Inl e, shown) \<Rightarrow> modalSubmissions cl auth noteTitle text matterData later (notify shown w)
      | (Inr postParams, shown) \<Rightarrow>
          (case tryToPublish cl (postParams\<lparr>content := text\<rparr>) auth (Some updateMatterData)
                  (Some (case wp_tags matterData of Some t \<Rightarrow> t | None \<Rightarrow> []))
                  (notify shown w) of
             (Inr data, w') \<Rightarrow> (Some data, w')
           | (Inl e, w') \<Rightarrow>
               modalSubmissions cl auth noteTitle text matterData later (showError e w')))"

datatype 'a outcome = Returned 'a | Pending

definition publishWithModal ::
    "env \<Rightarrow> WordPressAuthParams \<Rightarrow> string \<Rightarrow> string \<Rightarrow> MatterData \<Rightarrow> world
      \<Rightarrow> (error + WordPressPublishResult) outcome \<times> world" where
  \<comment> \<open>The \<open>else\<close> branch: the interactive collection of the parameters.\<close>
  "publishWithModal cl auth noteTitle text matterData w =
     (case getCategories cl auth of
        None \<Rightarrow> (Returned (Inl Rejected), w)
      | Some items \<Rightarrow>
          (case selectedCategories cl (clientProfile w) matterData auth of
             (selected, shown) \<Rightarrow>
               (case getPostTypes cl auth of
                  None \<Rightarrow> (Returned (Inl Rejected), notify shown w)
                | Some postTypes \<Rightarrow>
                    (case modalSubmissions cl auth noteTitle text matterData
                            (publishModal cl items selected
                               (if length postTypes = 0 then [PostTypeConst_Post] else postTypes)
                               (case wp_ptype matterData of Some t \<Rightarrow> t | None \<Rightarrow> PostTypeConst_Post)
                               matterData)
                            (notify shown w) of
                       (Some data, w') \<Rightarrow> (Returned (Inr data), w')
                     | (None, w') \<Rightarrow> (Pending, w')))))"

definition publishPostTry ::
    "env \<Rightarrow> WordPressPostParams option \<Rightarrow> world
      \<Rightarrow> (error + WordPressPublishResult) outcome \<times> world" where
  \<comment> \<open>The \<open>try\<close> block of \<open>publishPost\<close>; \<open>Returned (Inl e)\<close> is a \<open>throw\<close>. The
      second read of the file, 100 ms after the first, gives the same block.\<close>
  "publishPostTry cl defaultPostParams w0 =
     (if publishInProgress w0 then (Returned (Inl PublishInProgress), w0)
      else
        (let w = w0\<lparr>publishInProgress := True\<rparr>
         in if length (endpoint (clientProfile w)) = 0 then (Returned (Inl NoEndpoint), w)
            else
              (case activeFile w of
                 None \<Rightarrow> (Returned (Inl NoActiveFile), w)
               | Some file \<Rightarrow>
                   (case getAuth cl (clientProfile w) of
                      (Inl e, shown) \<Rightarrow> (Returned (Inl e), notify shown w)
                    | (Inr auth, shown) \<Rightarrow>
                        (let matterData = file_matter file;
                             hasWpFrontmatterText = file_wpKeysInText file
                         in if hasWpFrontmatterText \<and> \<not> hasWpFrontmatterParsed matterData
                            then (Returned (Inl FrontmatterParsingFailed), notify shown w)
                            else
                              (let retryMatterData = file_matter file;
                                   matterData =
                                     (if \<not> hasWpFrontmatterParsed matterData \<and> file_size file > 0
                                         \<and> hasWpFrontmatterParsed retryMatterData
                                      then objectAssign matterData retryMatterData
                                      else matterData);
                                   matterData = checkExistingProfile cl (clientProfile w) matterData
                               in if defaultPostParams \<noteq> None \<or> hasExistingPost matterData then
                                    (case publishWithParams cl defaultPostParams auth
                                            (file_basename file) (file_body file) matterData
                                            (notify shown w) of
                                       (r, w') \<Rightarrow> (Returned r, w'))
                                  else publishWithModal cl auth (file_basename file)
                                         (file_body file) matterData (notify shown w)))))))"

definition publishPost ::
    "env \<Rightarrow> WordPressPostParams option \<Rightarrow> world
      \<Rightarrow> (error + WordPressPublishResult) outcome \<times> world" where
  \<comment> \<open>\<open>try { ... } catch (error) { return showError(error) } finally
      { publishInProgress = false }\<close>. A promise that stays pending runs neither.\<close>
  "publishPost cl defaultPostParams w =
     (case publishPostTry cl defaultPostParams w of
        (Pending, w') \<Rightarrow> (Pending, w')
      | (Returned (Inl e), w') \<Rightarrow> (Returned (Inl e), (showError e w')\<lparr>publishInProgress := False\<rparr>)
      | (Returned (Inr data), w') \<Rightarrow> (Returned (Inr data), w'\<lparr>publishInProgress := False\<rparr>))"

subsection \<open>The resolver as the specification words it\<close>

definition matchName :: "env \<Rightarrow> Term list \<Rightarrow> string \<Rightarrow> Term option" where
  \<comment> \<open>The first remote category whose name is the given one, case set aside: the two
      names are equal once the platform has lowered them.\<close>
  "matchName cl allCategories n =
     find (\<lambda>cat. toLowerCase cl (term_name cat) = toLowerCase cl n) allCategories"

definition resolveCategoryIdsFromNames ::
    "env \<Rightarrow> Term list \<Rightarrow> string list \<Rightarrow> number list \<times> notice list" where
  \<comment> \<open>Section 4.1: each name is matched against the full remote list, an unmatched name
      gives the default ID 1, the unmatched names are listed in one warning, the output is
      de-duplicated, and an empty output is replaced by the default.\<close>
  "resolveCategoryIdsFromNames cl allCategories names =
     (let ids = uniq (map (\<lambda>n. case matchName cl allCategories n of
                                  Some cat \<Rightarrow> parseInt (term_id cat)
                                | None \<Rightarrow> Some 1) names);
          unmatched = filter (\<lambda>n. matchName cl allCategories n = None) names
      in (if ids = [] then [Some 1] else ids,
          if unmatched = [] then [] else [CategoriesNotFound (map CName unmatched)]))"

subsection \<open>Size annotations, for stating what the media relay does\<close>

definition digits :: "string \<Rightarrow> bool" where
  \<comment> \<open>What \<open>\d+\<close> matches as a whole.\<close>
  "digits ds = (ds \<noteq> [] \<and> (\<forall>c \<in> set ds. isDigit c))"

definition annotation :: "string option \<Rightarrow> string option \<Rightarrow> string" where
  \<comment> \<open>The text of a size annotation: nothing, \<open>|width\<close> or \<open>|widthxheight\<close>.\<close>
  "annotation w h =
     (case w of
        None \<Rightarrow> []
      | Some wd \<Rightarrow> ''|'' @ wd @ (case h of None \<Rightarrow> [] | Some ht \<Rightarrow> ''x'' @ ht))"

definition validSize :: "string option \<Rightarrow> string option \<Rightarrow> bool" where
  \<comment> \<open>The three shapes: no annotation, a width, a width and a height.\<close>
  "validSize w h =
     (case w of
        None \<Rightarrow> h = None
      | Some wd \<Rightarrow> digits wd \<and> (case h of None \<Rightarrow> True | Some ht \<Rightarrow> digits ht))"

subsection \<open>Example inputs\<close>

definition exampleEnv :: env where
  \<comment> \<open>A site with the categories News (7) and Tech (9), stored credentials that are
      valid, the base class's \<open>getPostsBySlug\<close>, and one local image \<open>cat.png\<close>.
      The names of the examples are ASCII, where \<open>toLowerCase\<close> lowers \<open>A\<close> to
      \<open>Z\<close>.\<close>
  "exampleEnv =
     \<lparr>publish = (\<lambda>t h p a. Some (ResultOK \<lparr>data_postId = Some ''42'', data_postUrl = None,
                     data_categories = categories p\<rparr>)),
      getCategories = (\<lambda>a. Some [\<lparr>term_id = ''7'', term_name = ''News''\<rparr>,
                                 \<lparr>term_id = ''9'', term_name = ''Tech''\<rparr>]),
      getPostTypes = (\<lambda>a. Some [''post'', ''page'']),
      validateUser = (\<lambda>a. Some OK),
      getTag = (\<lambda>n a. Some \<lparr>term_id = ''t-'' @ n, term_name = n\<rparr>),
      uploadMedia = (\<lambda>(mimeType, fileName, bytes) a.
                       Some (UploadOK (''https://cdn.example.com/'' @ fileName))),
      needLogin = True,
      getPostsBySlug = (\<lambda>slug. Some []),
      openLoginModal = Some (Some ''user'', Some ''secret''),
      openConfirmModal = Confirm,
      publishModal = (\<lambda>items selected types selectedType m. []),
      newURL = (\<lambda>u. if u = ''https://example.com/hello-world/'' then Some (None, ''/hello-world/'')
                     else if u = ''https://example.com/?p=12'' then Some (Some ''12'', ''/'')
                     else None),
      decodeURI = Some,
      toLowerCase = asciiLowerCase,
      isValidUrl = (\<lambda>u. startsWith u ''http://'' \<or> startsWith u ''https://''),
      getFirstLinkpathDest = (\<lambda>path fileName. if fileName = ''cat.png'' \<or> fileName = ''dog.png''
                                then Some (fileName, ''bytes'') else None),
      detectFile = (\<lambda>bytes. None),
      render = (\<lambda>markdown. markdown),
      defaultPostStatus = ''draft'',
      defaultCommentStatus = ''open'',
      rememberLastSelectedCategories = False,
      replaceMediaLinks = False,
      WP_DEFAULT_PROFILE_NAME = ''Default''\<rparr>"

fun accentLowerCase :: "string \<Rightarrow> string" where
  \<comment> \<open>A \<open>toLowerCase\<close> on UTF-8 bytes that knows one letter beyond ASCII: the capital
      E with an acute accent, \<open>C3 89\<close>, whose small letter is \<open>C3 A9\<close>.\<close>
  "accentLowerCase [] = []"
| "accentLowerCase [c] = [lowerChar c]"
| "accentLowerCase (c # d # cs) =
     (if c = CHR 0xC3 \<and> d = CHR 0x89 then c # CHR 0xA9 # accentLowerCase cs
      else lowerChar c # accentLowerCase (d # cs))"

definition accentEnv :: env where
  \<comment> \<open>A site whose one category is named with that capital letter, then \<open>cole\<close>.\<close>
  "accentEnv =
     exampleEnv\<lparr>getCategories := (\<lambda>a. Some [\<lparr>term_id = ''7'',
                                               term_name = [CHR 0xC3, CHR 0x89] @ ''cole''\<rparr>]),
                toLowerCase := accentLowerCase\<rparr>"

definition exampleProfile :: WpProfile where
  "exampleProfile =
     \<lparr>name = ''blog'', endpoint = ''https://example.com'', username = Some ''user'',
      password = Some ''secret'', lastSelectedCategories = None\<rparr>"

definition exampleMatter :: MatterData where
  \<comment> \<open>The block of a document published before.\<close>
  "exampleMatter =
     \<lparr>wp_url = Some ''https://example.com/hello-world/'', wp_profile = Some ''blog'',
      wp_ptype = Some ''post'', wp_categories = Some [CName ''news'', CName ''Ghost''],
      wp_tags = Some [''a''], wp_title = None\<rparr>"

definition emptyMatter :: MatterData where
  "emptyMatter =
     \<lparr>wp_url = None, wp_profile = None, wp_ptype = None, wp_categories = None,
      wp_tags = None, wp_title = None\<rparr>"

definition exampleParams :: WordPressPostParams where
  "exampleParams =
     \<lparr>status = ''draft'', commentStatus = ''open'', postType = ''post'',
      categories = [CId (Some 5)], tags = [''x''], title = ''Hello'', content = ''text'',
      postId = None, profileName = None\<rparr>"

definition exampleData :: WordPressPublishResult where
  "exampleData = \<lparr>data_postId = Some ''42'', data_postUrl = None, data_categories = [CId (Some 5)]\<rparr>"

definition exampleWorld :: world where
  "exampleWorld =
     \<lparr>publishInProgress = False, clientProfile = exampleProfile,
      activeFile = Some \<lparr>file_basename = ''Hello'', file_matter = exampleMatter,
                          file_body = ''see ![[cat.png|300x200]] end'', file_wpKeysInText = True,
                          file_size = 120\<rparr>,
      activeEditor = Some ''see ![[cat.png|300x200]] end'', notices = [], publishCalls = []\<rparr>"

definition rejectedLoginEnv :: env where
  \<comment> \<open>The stored credentials are rejected and the login modal rejects.\<close>
  "rejectedLoginEnv = exampleEnv\<lparr>validateUser := (\<lambda>a. Some Error), openLoginModal := None\<rparr>"

definition dollarEnv :: env where
  \<comment> \<open>The server stores the upload under a URL with \<open>$$\<close> in it.\<close>
  "dollarEnv = exampleEnv\<lparr>uploadMedia := (\<lambda>m a. Some (UploadOK ''https://cdn.example.com/a$$b.png''))\<rparr>"

definition newDocumentWorld :: world where
  \<comment> \<open>The active file has no metadata block yet.\<close>
  "newDocumentWorld =
     exampleWorld\<lparr>activeFile := Some \<lparr>file_basename = ''Hello'', file_matter = emptyMatter,
                                      file_body = ''text'', file_wpKeysInText = False,
                                      file_size = 4\<rparr>\<rparr>"

definition modalEnv :: env where
  \<comment> \<open>The user submits the publish modal once, with \<open>exampleParams\<close> and a callback
      that changes nothing.\<close>
  "modalEnv = exampleEnv\<lparr>publishModal :=
     (\<lambda>items selected types selectedType m. [(exampleParams, \<lambda>fm. fm)])\<rparr>"

definition switchedWorld :: world where
  \<comment> \<open>The active file was published with another profile.\<close>
  "switchedWorld =
     exampleWorld\<lparr>activeFile := Some \<lparr>file_basename = ''Hello'',
                                      file_matter = exampleMatter\<lparr>wp_profile := Some ''old''\<rparr>,
                                      file_body = ''text'', file_wpKeysInText = True,
                                      file_size = 120\<rparr>\<rparr>"


definition heldWorld :: world where
  \<comment> \<open>Another attempt is in flight: it holds the lock.\<close>
  "heldWorld = exampleWorld\<lparr>publishInProgress := True\<rparr>"

section \<open>Properties\<close>

subsection \<open>The term resolver\<close>

lemma namesLoop_names:
  "namesLoop cl cats (map CName names) ids missing =
     Some (ids @ map (\<lambda>n. case matchName cl cats n of
                              Some cat \<Rightarrow> parseInt (term_id cat)
                            | None \<Rightarrow> Some 1) names,
           missing @ map CName (filter (\<lambda>n. matchName cl cats n = None) names))"
  by (induction names arbitrary: ids missing)
     (auto simp: findByName_def matchName_def split: option.splits)

lemma distinct_uniq: "distinct (uniq xs)"
  by (induction xs) auto

lemma set_uniq: "set (uniq xs) = set xs"
  by (induction xs) auto

lemma uniq_Nil_iff: "uniq xs = [] \<longleftrightarrow> xs = []"
  by (cases xs) auto

lemma resolve_nonempty_distinct:
  "fst (resolveCategoryIdsFromNames cl cats names) \<noteq> []
   \<and> distinct (fst (resolveCategoryIdsFromNames cl cats names))
   \<and> length (snd (resolveCategoryIdsFromNames cl cats names)) \<le> 1"
  by (simp add: resolveCategoryIdsFromNames_def Let_def distinct_uniq)

lemma namesLoop_ids:
  "namesLoop cl cats items ids missing = Some (ids', missing') \<Longrightarrow>
     set ids' \<subseteq> set ids \<union> insert (Some 1) ((\<lambda>cat. parseInt (term_id cat)) ` set cats)"
proof (induction items arbitrary: ids missing)
  case Nil
  then show ?case by auto
next
  case (Cons nm rest)
  show ?case
  proof (cases "findByName cl cats nm")
    case None
    with Cons.prems show ?thesis by simp
  next
    case (Some found)
    show ?thesis
    proof (cases found)
      case None
      with Some Cons.prems
      have "namesLoop cl cats rest (ids @ [Some 1]) (missing @ [nm]) = Some (ids', missing')"
        by simp
      from Cons.IH[OF this] show ?thesis by auto
    next
      case (Some cat)
      with \<open>findByName cl cats nm = Some found\<close> have "cat \<in> set cats"
        by (auto simp: findByName_def find_Some_iff split: cat_item.splits if_splits)
      moreover from Some \<open>findByName cl cats nm = Some found\<close> Cons.prems
      have "namesLoop cl cats rest (ids @ [parseInt (term_id cat)]) missing = Some (ids', missing')"
        by simp
      from Cons.IH[OF this]
      have "set ids' \<subseteq> set (ids @ [parseInt (term_id cat)])
              \<union> insert (Some 1) ((\<lambda>cat. parseInt (term_id cat)) ` set cats)" .
      ultimately show ?thesis by auto
    qed
  qed
qed

lemma convert_ids_from_remote:
  "set (fst (convertCategoryNamesToIds cl items auth)) \<subseteq>
     insert (Some 1) (case getCategories cl auth of
                        None \<Rightarrow> {}
                      | Some cats \<Rightarrow> (\<lambda>cat. parseInt (term_id cat)) ` set cats)"
proof (cases "getCategories cl auth")
  case None
  then show ?thesis by (simp add: convertCategoryNamesToIds_def)
next
  case (Some cats)
  show ?thesis
  proof (cases "namesLoop cl cats items [] []")
    case None
    with Some show ?thesis by (simp add: convertCategoryNamesToIds_def)
  next
    case (Some r)
    obtain ids missing where r: "r = (ids, missing)" by (cases r)
    from namesLoop_ids[of cl cats items "[]" "[]" ids missing] Some r
    have "set ids \<subseteq> insert (Some 1) ((\<lambda>cat. parseInt (term_id cat)) ` set cats)" by simp
    with Some r \<open>getCategories cl auth = Some cats\<close> show ?thesis
      by (auto simp: convertCategoryNamesToIds_def Let_def set_uniq)
  qed
qed

text \<open>
  Claim C7. For every list of category names, \<open>convertCategoryNamesToIds\<close> matches each
  name against the full remote category list, case set aside (two names match when the
  platform's \<open>toLowerCase\<close> makes them equal, whatever that function does beyond
  ASCII); an unmatched name gives the
  default ID 1, and the unmatched names are shown in one notice that lists them all; the
  output has no duplicates; an empty output is replaced by \<open>[1]\<close>; the function always
  returns, and when the remote list cannot be fetched it returns \<open>[1]\<close>. The first
  conjunct says that the code computes what section 4.1 words
  (\<open>resolveCategoryIdsFromNames\<close>); the next four hold of every result; the last two
  say what a matched and an unmatched name contribute.
\<close>

theorem convertCategoryNamesToIds_resolves:
  "convertCategoryNamesToIds cl (map CName names) auth =
     (case getCategories cl auth of
        None \<Rightarrow> ([Some 1], [])
      | Some cats \<Rightarrow> resolveCategoryIdsFromNames cl cats names)
   \<and> fst (convertCategoryNamesToIds cl (map CName names) auth) \<noteq> []
   \<and> distinct (fst (convertCategoryNamesToIds cl (map CName names) auth))
   \<and> length (snd (convertCategoryNamesToIds cl (map CName names) auth)) \<le> 1
   \<and> convertCategoryNamesToIds cl [] auth = ([Some 1], [])
   \<and> (getCategories cl auth = Some cats \<and> n \<in> set names
        \<and> find (\<lambda>cat. toLowerCase cl (term_name cat) = toLowerCase cl n) cats = Some found \<longrightarrow>
      parseInt (term_id found) \<in> set (fst (convertCategoryNamesToIds cl (map CName names) auth)))
   \<and> (getCategories cl auth = Some cats \<and> n \<in> set names
        \<and> find (\<lambda>cat. toLowerCase cl (term_name cat) = toLowerCase cl n) cats = None \<longrightarrow>
      Some 1 \<in> set (fst (convertCategoryNamesToIds cl (map CName names) auth))
      \<and> (\<exists>missing. snd (convertCategoryNamesToIds cl (map CName names) auth)
                       = [CategoriesNotFound missing] \<and> CName n \<in> set missing))"
proof -
  have eq: "convertCategoryNamesToIds cl (map CName ns) auth =
     (case getCategories cl auth of
        None \<Rightarrow> ([Some 1], [])
      | Some cats \<Rightarrow> resolveCategoryIdsFromNames cl cats ns)" for ns
    by (simp add: convertCategoryNamesToIds_def resolveCategoryIdsFromNames_def namesLoop_names
          Let_def uniq_Nil_iff split: option.splits)
  have empty: "convertCategoryNamesToIds cl [] auth = ([Some 1], [])"
    using eq [of "[]"] by (simp add: resolveCategoryIdsFromNames_def split: option.splits)
  have matched: "parseInt (term_id found) \<in> set (fst (convertCategoryNamesToIds cl (map CName names) auth))"
    if "getCategories cl auth = Some cats" "n \<in> set names"
      "find (\<lambda>cat. toLowerCase cl (term_name cat) = toLowerCase cl n) cats = Some found"
  proof -
    from that(2,3) have "parseInt (term_id found) \<in>
        (\<lambda>n. case matchName cl cats n of Some cat \<Rightarrow> parseInt (term_id cat) | None \<Rightarrow> Some 1) ` set names"
      by (force simp: matchName_def)
    with that(1,2) show ?thesis
      by (auto simp: eq resolveCategoryIdsFromNames_def Let_def set_uniq uniq_Nil_iff)
  qed
  have unmatched: "Some 1 \<in> set (fst (convertCategoryNamesToIds cl (map CName names) auth))
      \<and> (\<exists>missing. snd (convertCategoryNamesToIds cl (map CName names) auth)
                       = [CategoriesNotFound missing] \<and> CName n \<in> set missing)"
    if "getCategories cl auth = Some cats" "n \<in> set names"
      "find (\<lambda>cat. toLowerCase cl (term_name cat) = toLowerCase cl n) cats = None"
  proof -
    from that(2,3) have "Some 1 \<in>
        (\<lambda>n. case matchName cl cats n of Some cat \<Rightarrow> parseInt (term_id cat) | None \<Rightarrow> Some 1) ` set names"
      by (force simp: matchName_def)
    moreover from that(2,3) have "filter (\<lambda>n. matchName cl cats n = None) names \<noteq> []"
      by (auto simp: matchName_def filter_empty_conv)
    moreover from that(2,3) have "n \<in> set (filter (\<lambda>n. matchName cl cats n = None) names)"
      by (simp add: matchName_def)
    ultimately show ?thesis
      using that(1,2)
      by (auto simp: eq resolveCategoryIdsFromNames_def Let_def set_uniq uniq_Nil_iff)
  qed
  show ?thesis
    using eq [of names] empty resolve_nonempty_distinct matched unmatched
    by (cases "getCategories cl auth") simp_all
qed

theorem convertCategoryNamesToIds_resolves_witness:
  "convertCategoryNamesToIds exampleEnv
     (map CName [''news'', ''Ghost'', ''NEWS'', ''Void'', ''tech'']) (None, None) =
     ([Some 7, Some 1, Some 9], [CategoriesNotFound [CName ''Ghost'', CName ''Void'']])
   \<and> Some 7 \<in> set (fst (convertCategoryNamesToIds exampleEnv
         (map CName [''news'', ''Ghost'', ''NEWS'', ''Void'', ''tech'']) (None, None)))
   \<and> Some 1 \<in> set (fst (convertCategoryNamesToIds exampleEnv
         (map CName [''news'', ''Ghost'', ''NEWS'', ''Void'', ''tech'']) (None, None)))
   \<and> (\<exists>missing. snd (convertCategoryNamesToIds exampleEnv
         (map CName [''news'', ''Ghost'', ''NEWS'', ''Void'', ''tech'']) (None, None))
           = [CategoriesNotFound missing] \<and> CName ''Ghost'' \<in> set missing)"
proof -
  let ?cats = "[\<lparr>term_id = ''7'', term_name = ''News''\<rparr>, \<lparr>term_id = ''9'', term_name = ''Tech''\<rparr>]"
  let ?names = "[''news'', ''Ghost'', ''NEWS'', ''Void'', ''tech'']"
  have v: "resolveCategoryIdsFromNames exampleEnv ?cats ?names =
        ([Some 7, Some 1, Some 9], [CategoriesNotFound [CName ''Ghost'', CName ''Void'']])"
    by code_simp
  have r: "getCategories exampleEnv (None, None) = Some ?cats"
    by (simp add: exampleEnv_def)
  have f1: "find (\<lambda>cat. toLowerCase exampleEnv (term_name cat) = toLowerCase exampleEnv ''news'') ?cats
              = Some \<lparr>term_id = ''7'', term_name = ''News''\<rparr>"
    by code_simp
  have f2: "find (\<lambda>cat. toLowerCase exampleEnv (term_name cat) = toLowerCase exampleEnv ''Ghost'') ?cats = None"
    by code_simp
  have pi: "parseInt ''7'' = Some 7"
    by code_simp
  have 1: "convertCategoryNamesToIds exampleEnv (map CName ?names) (None, None) =
     ([Some 7, Some 1, Some 9], [CategoriesNotFound [CName ''Ghost'', CName ''Void'']])"
    using convertCategoryNamesToIds_resolves [where cl = exampleEnv and names = ?names
            and auth = "(None, None)"] v r
    by simp
  have n1: "''news'' \<in> set ?names" and n2: "''Ghost'' \<in> set ?names"
    by simp_all
  have "parseInt (term_id \<lparr>term_id = ''7'', term_name = ''News''\<rparr>)
          \<in> set (fst (convertCategoryNamesToIds exampleEnv (map CName ?names) (None, None)))"
    using convertCategoryNamesToIds_resolves [where cl = exampleEnv and names = ?names
            and auth = "(None, None)" and cats = ?cats and n = "''news''"
            and found = "\<lparr>term_id = ''7'', term_name = ''News''\<rparr>"] r f1 n1
    by blast
  then have 2: "Some 7 \<in> set (fst (convertCategoryNamesToIds exampleEnv (map CName ?names) (None, None)))"
    using pi by simp
  have 3: "Some 1 \<in> set (fst (convertCategoryNamesToIds exampleEnv (map CName ?names) (None, None)))
      \<and> (\<exists>missing. snd (convertCategoryNamesToIds exampleEnv (map CName ?names) (None, None))
                       = [CategoriesNotFound missing] \<and> CName ''Ghost'' \<in> set missing)"
    using convertCategoryNamesToIds_resolves [where cl = exampleEnv and names = ?names
            and auth = "(None, None)" and cats = ?cats and n = "''Ghost''"] r f2 n2
    by blast
  from 1 2 3 show ?thesis by blast
qed

text \<open>
  The comparison is the platform's: a name written with other capitals than the remote
  one is matched beyond ASCII too, where the platform lowers both to the same string.
\<close>

lemma names_match_beyond_ascii:
  "convertCategoryNamesToIds accentEnv [CName ([CHR 0xC3, CHR 0xA9] @ ''COLE'')] (None, None)
     = ([Some 7], [])"
  by code_simp

subsection \<open>The metadata merge\<close>

lemma policy_wp_url:
  "wp_url (frontMatterPolicy profile postParams data bn nNew nEx nUp tagNames fm) =
     (if truthy (wp_url fm) then wp_url fm
      else if truthy (data_postUrl data) then data_postUrl data
      else if truthy (data_postId data)
      then Some (endpoint profile @ ''/?p='' @ (case data_postId data of Some i \<Rightarrow> i | None \<Rightarrow> []))
      else wp_url fm)"
  by (simp add: frontMatterPolicy_def Let_def split: option.splits)

lemma policy_wp_tags:
  "wp_tags (frontMatterPolicy profile postParams data bn nNew nEx nUp tagNames fm) =
     (case tagNames of Some names \<Rightarrow> Some names | None \<Rightarrow> Some (tags postParams))"
  by (simp add: frontMatterPolicy_def Let_def split: option.splits)

lemma policy_wp_categories:
  "wp_categories (frontMatterPolicy profile postParams data bn nNew nEx nUp tagNames fm) =
     (case nNew of
        Some names \<Rightarrow> Some (map CName names)
      | None \<Rightarrow>
          (case nEx of
             Some names \<Rightarrow> Some (map CName names)
           | None \<Rightarrow>
               (case nUp of
                  Some names \<Rightarrow> Some (map CName names)
                | None \<Rightarrow>
                    if categories postParams \<noteq> [] then Some (categories postParams)
                    else wp_categories fm)))"
  by (simp add: frontMatterPolicy_def Let_def split: option.splits)

lemma notify_simps [simp]:
  "activeFile (notify shown w) = activeFile w"
  "clientProfile (notify shown w) = clientProfile w"
  "publishInProgress (notify shown w) = publishInProgress w"
  "publishCalls (notify shown w) = publishCalls w"
  by (simp_all add: notify_def)

lemma updatePostImages_activeFile:
  "updatePostImages cl auth postParams w = (r, w') \<Longrightarrow> activeFile w' = activeFile w"
  by (auto simp: updatePostImages_def split: option.splits prod.splits sum.splits if_splits)

lemma rememberCategories_activeFile:
  "activeFile (rememberCategories cl data w) = activeFile w"
  by (simp add: rememberCategories_def split: prod.splits sum.splits)

lemma updateFrontMatter_url:
  "activeFile w = Some f \<Longrightarrow> truthy (wp_url (file_matter f)) \<Longrightarrow>
   \<exists>f'. activeFile (updateFrontMatter cl postParams data None tagNames w) = Some f'
        \<and> wp_url (file_matter f') = wp_url (file_matter f)"
  by (simp add: updateFrontMatter_def processFrontMatterCallback_def policy_wp_url
        split: prod.splits)

text \<open>
  Whatever an attempt without \<open>updateMatterData\<close> does, and whether the remote call
  succeeds or not, the active file keeps a present URL.
\<close>

lemma tryToPublish_keeps_remote_url:
  assumes "activeFile w = Some f" "truthy (wp_url (file_matter f))"
    and "tryToPublish cl postParams auth None tagNames w = (r, w')"
  shows "\<exists>f'. activeFile w' = Some f' \<and> wp_url (file_matter f') = wp_url (file_matter f)"
proof -
  obtain r1 w1 where
    u: "updatePostImages cl auth
          (postParams\<lparr>tags := map term_id (getTags cl (tags postParams) auth)\<rparr>) w = (r1, w1)"
    by (cases "updatePostImages cl auth
                 (postParams\<lparr>tags := map term_id (getTags cl (tags postParams) auth)\<rparr>) w")
  have a1: "activeFile w1 = Some f"
    using updatePostImages_activeFile[OF u] assms(1) by simp
  show ?thesis
  proof (cases r1)
    case (Inl e)
    with assms(3) u a1 show ?thesis by (simp add: tryToPublish_def Let_def)
  next
    case (Inr pp)
    let ?w2 = "w1\<lparr>publishCalls := publishCalls w1 @ [(title pp, render cl (content pp), pp)]\<rparr>"
    have a2: "activeFile ?w2 = Some f" using a1 by simp
    show ?thesis
    proof (cases "publish cl (title pp) (render cl (content pp)) pp auth")
      case None
      with assms(3) u Inr a2 show ?thesis by (simp add: tryToPublish_def Let_def)
    next
      case (Some res)
      show ?thesis
      proof (cases res)
        case (ResultError c m)
        with assms(3) u Inr a2 Some show ?thesis by (simp add: tryToPublish_def Let_def)
      next
        case (ResultOK data)
        have a3: "activeFile (notify [PublishSuccessfully] ?w2) = Some f" using a2 by simp
        from updateFrontMatter_url[OF a3 assms(2), of cl pp data tagNames]
        show ?thesis
          using assms(3) u Inr Some ResultOK
          by (auto simp: tryToPublish_def Let_def rememberCategories_activeFile)
      qed
    qed
  qed
qed

text \<open>
  Claim C1. For every metadata block whose \<open>wp_url\<close> is present (a string that is not
  empty, which is what the code tests), the merge that follows a successful remote call
  leaves \<open>wp_url\<close> as it is: the policy keeps it whatever the server returned, and so
  does the whole merge when the caller gives no \<open>updateMatterData\<close>, as on the update
  path. Only without a present URL is the server's \<open>postUrl\<close> adopted; and only without
  that is the URL built from the endpoint, \<open>/?p=\<close> and the new post ID. The last
  conjunct is the same invariant for a whole run of \<open>tryToPublish\<close> on the active file.
\<close>

theorem merge_keeps_remote_url:
  "(truthy (wp_url fm) \<longrightarrow>
      wp_url (frontMatterPolicy profile postParams data bn nNew nEx nUp tagNames fm) = wp_url fm
    \<and> wp_url (processFrontMatterCallback profile postParams data bn nNew nEx nUp tagNames None fm)
        = wp_url fm)
   \<and> (\<not> truthy (wp_url fm) \<and> truthy (data_postUrl data) \<longrightarrow>
      wp_url (frontMatterPolicy profile postParams data bn nNew nEx nUp tagNames fm)
        = data_postUrl data)
   \<and> (\<not> truthy (wp_url fm) \<and> \<not> truthy (data_postUrl data) \<and> data_postId data = Some i \<and> i \<noteq> [] \<longrightarrow>
      wp_url (frontMatterPolicy profile postParams data bn nNew nEx nUp tagNames fm)
        = Some (endpoint profile @ ''/?p='' @ i))
   \<and> (activeFile w = Some f \<and> truthy (wp_url (file_matter f)) \<longrightarrow>
      (\<exists>f'. activeFile (snd (tryToPublish cl postParams auth None tagNames w)) = Some f'
          \<and> wp_url (file_matter f') = wp_url (file_matter f)))"
proof -
  have run: "\<exists>f'. activeFile (snd (tryToPublish cl postParams auth None tagNames w)) = Some f'
          \<and> wp_url (file_matter f') = wp_url (file_matter f)"
    if "activeFile w = Some f" "truthy (wp_url (file_matter f))"
    using tryToPublish_keeps_remote_url [OF that, of cl postParams auth tagNames
            "fst (tryToPublish cl postParams auth None tagNames w)"
            "snd (tryToPublish cl postParams auth None tagNames w)"]
    by simp
  show ?thesis
    using run by (simp add: processFrontMatterCallback_def policy_wp_url truthy_def)
qed

theorem merge_keeps_remote_url_witness:
  "truthy (wp_url exampleMatter)
   \<and> wp_url (processFrontMatterCallback exampleProfile exampleParams
        (exampleData\<lparr>data_postUrl := Some ''https://example.com/other/''\<rparr>) ''Hello''
        None None None None None exampleMatter) = Some ''https://example.com/hello-world/''
   \<and> \<not> truthy (wp_url emptyMatter)
   \<and> wp_url (frontMatterPolicy exampleProfile exampleParams
        (exampleData\<lparr>data_postUrl := Some ''https://example.com/other/''\<rparr>) ''Hello''
        None None None None emptyMatter) = Some ''https://example.com/other/''
   \<and> wp_url (frontMatterPolicy exampleProfile exampleParams exampleData ''Hello''
        None None None None emptyMatter) = Some ''https://example.com/?p=42''
   \<and> (\<exists>f'. activeFile (snd (tryToPublish
          (exampleEnv\<lparr>publish := (\<lambda>t h p a. Some (ResultOK \<lparr>data_postId = Some ''42'',
                 data_postUrl = Some ''https://example.com/other/'', data_categories = []\<rparr>))\<rparr>)
          exampleParams (None, None) None (Some []) exampleWorld)) = Some f'
        \<and> wp_url (file_matter f') = Some ''https://example.com/hello-world/'')"
proof -
  have 1: "truthy (wp_url exampleMatter)
   \<and> wp_url (processFrontMatterCallback exampleProfile exampleParams
        (exampleData\<lparr>data_postUrl := Some ''https://example.com/other/''\<rparr>) ''Hello''
        None None None None None exampleMatter) = Some ''https://example.com/hello-world/''
   \<and> \<not> truthy (wp_url emptyMatter)
   \<and> wp_url (frontMatterPolicy exampleProfile exampleParams
        (exampleData\<lparr>data_postUrl := Some ''https://example.com/other/''\<rparr>) ''Hello''
        None None None None emptyMatter) = Some ''https://example.com/other/''
   \<and> wp_url (frontMatterPolicy exampleProfile exampleParams exampleData ''Hello''
        None None None None emptyMatter) = Some ''https://example.com/?p=42''"
    using merge_keeps_remote_url [where fm = exampleMatter and profile = exampleProfile
          and postParams = exampleParams
          and data = "exampleData\<lparr>data_postUrl := Some ''https://example.com/other/''\<rparr>"
          and bn = "''Hello''" and nNew = None and nEx = None and nUp = None and tagNames = None]
        merge_keeps_remote_url [where fm = emptyMatter and profile = exampleProfile
          and postParams = exampleParams
          and data = "exampleData\<lparr>data_postUrl := Some ''https://example.com/other/''\<rparr>"
          and bn = "''Hello''" and nNew = None and nEx = None and nUp = None and tagNames = None]
        merge_keeps_remote_url [where fm = emptyMatter and profile = exampleProfile
          and postParams = exampleParams and data = exampleData and i = "''42''"
          and bn = "''Hello''" and nNew = None and nEx = None and nUp = None and tagNames = None]
    by (simp add: exampleMatter_def emptyMatter_def exampleData_def exampleProfile_def truthy_def)
  have af: "activeFile exampleWorld = Some \<lparr>file_basename = ''Hello'', file_matter = exampleMatter,
        file_body = ''see ![[cat.png|300x200]] end'', file_wpKeysInText = True, file_size = 120\<rparr>"
    by (simp add: exampleWorld_def)
  have u: "wp_url exampleMatter = Some ''https://example.com/hello-world/''"
    by (simp add: exampleMatter_def)
  have 2: "\<exists>f'. activeFile (snd (tryToPublish
          (exampleEnv\<lparr>publish := (\<lambda>t h p a. Some (ResultOK \<lparr>data_postId = Some ''42'',
                 data_postUrl = Some ''https://example.com/other/'', data_categories = []\<rparr>))\<rparr>)
          exampleParams (None, None) None (Some []) exampleWorld)) = Some f'
        \<and> wp_url (file_matter f') = Some ''https://example.com/hello-world/''"
    using merge_keeps_remote_url [where w = exampleWorld
          and f = "\<lparr>file_basename = ''Hello'', file_matter = exampleMatter,
        file_body = ''see ![[cat.png|300x200]] end'', file_wpKeysInText = True, file_size = 120\<rparr>"
          and cl = "exampleEnv\<lparr>publish := (\<lambda>t h p a. Some (ResultOK \<lparr>data_postId = Some ''42'',
                 data_postUrl = Some ''https://example.com/other/'', data_categories = []\<rparr>))\<rparr>"
          and postParams = exampleParams and auth = "(None, None)" and tagNames = "Some []"] af u
    by (simp add: truthy_def)
  from 1 2 show ?thesis by blast
qed

text \<open>
  The earlier revision of the rule replaced a present URL by the one that the server
  returned.
\<close>

lemma earlier_revision_replaced_url:
  "wp_url (earlierUrlRule exampleProfile
     (exampleData\<lparr>data_postUrl := Some ''https://example.com/other/''\<rparr>) exampleMatter)
     = Some ''https://example.com/other/''"
  by (simp add: earlierUrlRule_def exampleData_def truthy_def)

text \<open>
  Claim C5. For every metadata block, whatever tags it holds, the merge with the original
  tag names \<open>[]\<close> stores \<open>wp_tags = []\<close>: a list that is given, empty or not, is
  stored as it is. Without a list the outgoing tags of the request are stored.
\<close>

theorem explicit_tag_names_win:
  "wp_tags (processFrontMatterCallback profile postParams data bn nNew nEx nUp (Some []) None fm)
     = Some []
   \<and> wp_tags (processFrontMatterCallback profile postParams data bn nNew nEx nUp (Some names) None fm)
     = Some names
   \<and> wp_tags (frontMatterPolicy profile postParams data bn nNew nEx nUp (Some []) fm) = Some []
   \<and> wp_tags (frontMatterPolicy profile postParams data bn nNew nEx nUp None fm)
     = Some (tags postParams)"
  by (simp add: processFrontMatterCallback_def policy_wp_tags)

lemma convertCategoryIdsToNames_nonempty: "convertCategoryIdsToNames cl ids auth \<noteq> []"
  by (simp add: convertCategoryIdsToNames_def Let_def split: option.splits)

lemma updateFrontMatter_categories:
  assumes "activeFile w = Some f"
  shows "\<exists>f'. activeFile (updateFrontMatter cl postParams data None tagNames w) = Some f'
     \<and> wp_categories (file_matter f') =
        (case fst (categoryNamesForNewPost cl (clientProfile w) postParams) of
           Some names \<Rightarrow> Some (map CName names)
         | None \<Rightarrow>
            (case fst (categoryNamesForExisting cl (clientProfile w) (file_matter f)) of
               Some names \<Rightarrow> Some (map CName names)
             | None \<Rightarrow> if categories postParams \<noteq> [] then Some (categories postParams)
                        else wp_categories (file_matter f)))"
  using assms
  by (auto simp: updateFrontMatter_def processFrontMatterCallback_def policy_wp_categories
        split: prod.splits option.splits)

text \<open>
  Claim C4, as amended. The claim says that the merge never stores numeric IDs. The code
  stores the raw outgoing IDs when the conversion to names fails, which is the branch
  \<open>Fallback to IDs if conversion failed\<close>: \<open>getAuth\<close> is called again before the
  conversion, and when it throws the names stay undefined
  (\<open>categories_stored_as_ids_counterexample\<close>, a successful publish that stores
  \<open>[5]\<close>). What holds of the policy, before any \<open>updateMatterData\<close>: when the request
  carries categories, or the stored array starts with a number, and \<open>getAuth\<close> returns,
  the stored categories are a non-empty list of names; when \<open>getAuth\<close> throws and the
  request carries categories, they are stored as they are; when the request carries none
  and the stored array does not start with a number, the stored value is kept.
\<close>

theorem categories_stored_as_names:
  "(activeFile w = Some f \<and> getAuth cl (clientProfile w) = (Inr auth, authShown)
      \<and> (categories postParams \<noteq> [] \<or> (\<exists>i rest. wp_categories (file_matter f) = Some (CId i # rest))) \<longrightarrow>
      (\<exists>f' names. activeFile (updateFrontMatter cl postParams data None tagNames w) = Some f'
          \<and> wp_categories (file_matter f') = Some (map CName names) \<and> names \<noteq> []))
   \<and> (activeFile w = Some f \<and> getAuth cl (clientProfile w) = (Inl e, authShown)
        \<and> categories postParams \<noteq> [] \<longrightarrow>
      (\<exists>f'. activeFile (updateFrontMatter cl postParams data None tagNames w) = Some f'
          \<and> wp_categories (file_matter f') = Some (categories postParams)))
   \<and> (activeFile w = Some f \<and> categories postParams = []
        \<and> (\<forall>i rest. wp_categories (file_matter f) \<noteq> Some (CId i # rest)) \<longrightarrow>
      (\<exists>f'. activeFile (updateFrontMatter cl postParams data None tagNames w) = Some f'
          \<and> wp_categories (file_matter f') = wp_categories (file_matter f)))"
proof -
  have a: "\<exists>f' names. activeFile (updateFrontMatter cl postParams data None tagNames w) = Some f'
          \<and> wp_categories (file_matter f') = Some (map CName names) \<and> names \<noteq> []"
    if f: "activeFile w = Some f" and g: "getAuth cl (clientProfile w) = (Inr auth, authShown)"
      and c: "categories postParams \<noteq> [] \<or> (\<exists>i rest. wp_categories (file_matter f) = Some (CId i # rest))"
  proof -
    from updateFrontMatter_categories[OF f, of cl postParams data tagNames] obtain f' where
      f': "activeFile (updateFrontMatter cl postParams data None tagNames w) = Some f'"
      and v: "wp_categories (file_matter f') =
        (case fst (categoryNamesForNewPost cl (clientProfile w) postParams) of
           Some names \<Rightarrow> Some (map CName names)
         | None \<Rightarrow>
            (case fst (categoryNamesForExisting cl (clientProfile w) (file_matter f)) of
               Some names \<Rightarrow> Some (map CName names)
             | None \<Rightarrow> if categories postParams \<noteq> [] then Some (categories postParams)
                        else wp_categories (file_matter f)))" by blast
    from c g v have "\<exists>names. wp_categories (file_matter f') = Some (map CName names) \<and> names \<noteq> []"
      by (auto simp: categoryNamesForNewPost_def categoryNamesForExisting_def
            convertForFrontMatter_def isNumber_def convertCategoryIdsToNames_nonempty)
    with f' show ?thesis by blast
  qed
  have b: "\<exists>f'. activeFile (updateFrontMatter cl postParams data None tagNames w) = Some f'
          \<and> wp_categories (file_matter f') = Some (categories postParams)"
    if f: "activeFile w = Some f" and g: "getAuth cl (clientProfile w) = (Inl e, authShown)"
      and c: "categories postParams \<noteq> []"
    using updateFrontMatter_categories[OF f, of cl postParams data tagNames] g c
    by (auto simp: categoryNamesForNewPost_def categoryNamesForExisting_def
          convertForFrontMatter_def split: option.splits list.splits if_splits)
  have c: "\<exists>f'. activeFile (updateFrontMatter cl postParams data None tagNames w) = Some f'
          \<and> wp_categories (file_matter f') = wp_categories (file_matter f)"
    if f: "activeFile w = Some f" and c: "categories postParams = []"
      and n: "\<forall>i rest. wp_categories (file_matter f) \<noteq> Some (CId i # rest)"
    using updateFrontMatter_categories[OF f, of cl postParams data tagNames] c n
    by (auto simp: categoryNamesForNewPost_def categoryNamesForExisting_def isNumber_def
          split: option.splits list.splits cat_item.splits)
  from a b c show ?thesis by blast
qed

theorem categories_stored_as_names_witness:
  "(\<exists>f' names. activeFile (updateFrontMatter exampleEnv exampleParams exampleData None (Some [])
                  newDocumentWorld) = Some f'
        \<and> wp_categories (file_matter f') = Some (map CName names) \<and> names \<noteq> [])
   \<and> (\<exists>f'. activeFile (updateFrontMatter rejectedLoginEnv exampleParams exampleData None (Some [])
                  newDocumentWorld) = Some f'
        \<and> wp_categories (file_matter f') = Some [CId (Some 5)])
   \<and> (\<exists>f'. activeFile (updateFrontMatter exampleEnv (exampleParams\<lparr>categories := []\<rparr>) exampleData
                  None (Some []) exampleWorld) = Some f'
        \<and> wp_categories (file_matter f') = Some [CName ''news'', CName ''Ghost''])
   \<and> map_option (\<lambda>f. wp_categories (file_matter f))
        (activeFile (updateFrontMatter exampleEnv exampleParams exampleData None (Some [])
           newDocumentWorld)) = Some (Some [CName ''Uncategorized''])"
proof -
  have g: "getAuth exampleEnv (clientProfile newDocumentWorld) = (Inr (Some ''user'', Some ''secret''), [])"
    by code_simp
  have g': "getAuth rejectedLoginEnv (clientProfile newDocumentWorld)
              = (Inl Rejected, [ErrorNotice InvalidUser])"
    by code_simp
  have af: "activeFile newDocumentWorld = Some \<lparr>file_basename = ''Hello'', file_matter = emptyMatter,
                                      file_body = ''text'', file_wpKeysInText = False,
                                      file_size = 4\<rparr>"
    by (simp add: newDocumentWorld_def)
  have af': "activeFile exampleWorld = Some \<lparr>file_basename = ''Hello'', file_matter = exampleMatter,
        file_body = ''see ![[cat.png|300x200]] end'', file_wpKeysInText = True, file_size = 120\<rparr>"
    by (simp add: exampleWorld_def)
  have c: "categories exampleParams = [CId (Some 5)]"
    by (simp add: exampleParams_def)
  have m: "wp_categories exampleMatter = Some [CName ''news'', CName ''Ghost'']"
    by (simp add: exampleMatter_def)
  from categories_stored_as_names
         [where w = newDocumentWorld and cl = exampleEnv and postParams = exampleParams
            and data = exampleData and tagNames = "Some []"] g af c
  have 1: "\<exists>f' names. activeFile (updateFrontMatter exampleEnv exampleParams exampleData None (Some [])
                  newDocumentWorld) = Some f'
        \<and> wp_categories (file_matter f') = Some (map CName names) \<and> names \<noteq> []"
    by simp
  from categories_stored_as_names
         [where w = newDocumentWorld and cl = rejectedLoginEnv and postParams = exampleParams
            and data = exampleData and tagNames = "Some []"] g' af c
  have 2: "\<exists>f'. activeFile (updateFrontMatter rejectedLoginEnv exampleParams exampleData None (Some [])
                  newDocumentWorld) = Some f'
        \<and> wp_categories (file_matter f') = Some [CId (Some 5)]"
    by simp
  from categories_stored_as_names
         [where w = exampleWorld and cl = exampleEnv and postParams = "exampleParams\<lparr>categories := []\<rparr>"
            and data = exampleData and tagNames = "Some []"
            and f = "\<lparr>file_basename = ''Hello'', file_matter = exampleMatter,
        file_body = ''see ![[cat.png|300x200]] end'', file_wpKeysInText = True, file_size = 120\<rparr>"] af' m
  have 3: "\<exists>f'. activeFile (updateFrontMatter exampleEnv (exampleParams\<lparr>categories := []\<rparr>) exampleData
                  None (Some []) exampleWorld) = Some f'
        \<and> wp_categories (file_matter f') = Some [CName ''news'', CName ''Ghost'']"
    by simp
  have 4: "map_option (\<lambda>f. wp_categories (file_matter f))
     (activeFile (updateFrontMatter exampleEnv exampleParams exampleData None (Some []) newDocumentWorld))
     = Some (Some [CName ''Uncategorized''])"
    by code_simp
  from 1 2 3 4 show ?thesis by blast
qed

theorem categories_stored_as_ids_counterexample:
  "fst (tryToPublish rejectedLoginEnv exampleParams (Some ''user'', Some ''secret'') None
          (Some []) newDocumentWorld)
     = Inr \<lparr>data_postId = Some ''42'', data_postUrl = None, data_categories = [CId (Some 5)]\<rparr>
   \<and> map_option (\<lambda>f. wp_categories (file_matter f))
         (activeFile (snd (tryToPublish rejectedLoginEnv exampleParams
            (Some ''user'', Some ''secret'') None (Some []) newDocumentWorld)))
     = Some (Some [CId (Some 5)])"
  by code_simp

subsection \<open>Building the parameters from the metadata block\<close>

lemma readTitleIdType_fields:
  "categories (readTitleIdType cl noteTitle md given) = categories given"
  "tags (readTitleIdType cl noteTitle md given) = tags given"
  "postType (readTitleIdType cl noteTitle md given) =
     (case wp_ptype md of Some t \<Rightarrow> t | None \<Rightarrow> PostTypeConst_Post)"
  "postId (readTitleIdType cl noteTitle md given) =
     (if truthy (wp_url md) then
        (case extractPostIdFromUrl cl (case wp_url md of Some url \<Rightarrow> url | None \<Rightarrow> []) of
           Some n \<Rightarrow> if truthyNumber n then Some (String n) else postId given
         | None \<Rightarrow> postId given)
      else postId given)"
  by (simp_all add: readTitleIdType_def Let_def split: option.splits)

lemma andThen_Inr:
  "andThen m f = (Inr b, shown) \<Longrightarrow>
     \<exists>a s1 s2. m = (Inr a, s1) \<and> f a = (Inr b, s2) \<and> shown = s1 @ s2"
  by (auto simp: andThen_def split: prod.splits sum.splits)

lemma readCategories_fields:
  assumes "readCategories cl profile md pp0 = (Inr pp, shown)"
  shows "tags pp = tags pp0" "postType pp = postType pp0" "postId pp = postId pp0"
  using assms
  by (auto simp: readCategories_def dest!: andThen_Inr split: option.splits list.splits if_splits prod.splits)

lemma readFromFrontMatter_other_type:
  assumes "wp_ptype md = Some t" "t \<noteq> PostTypeConst_Post"
  shows "readFromFrontMatter cl profile noteTitle md given
           = (Inr (readTitleIdType cl noteTitle md given), [])"
  using assms by (simp add: readFromFrontMatter_def Let_def readTitleIdType_fields)

lemma readFromFrontMatter_post:
  assumes "wp_ptype md = None \<or> wp_ptype md = Some PostTypeConst_Post"
    and "readFromFrontMatter cl profile noteTitle md given = (Inr pp, shown)"
  shows "\<exists>pp1. readCategories cl profile md (readTitleIdType cl noteTitle md given) = (Inr pp1, shown)
           \<and> pp = (case wp_tags md of Some t \<Rightarrow> pp1\<lparr>tags := t\<rparr> | None \<Rightarrow> pp1)"
proof -
  from assms(1) have pt: "postType (readTitleIdType cl noteTitle md given) = PostTypeConst_Post"
    by (auto simp: readTitleIdType_fields)
  from assms(2) pt show ?thesis
    by (auto simp: readFromFrontMatter_def Let_def dest!: andThen_Inr)
qed

lemma readFromFrontMatter_postId:
  assumes "readFromFrontMatter cl profile noteTitle md given = (Inr pp, shown)"
  shows "postId pp = postId (readTitleIdType cl noteTitle md given)"
proof (cases "postType (readTitleIdType cl noteTitle md given) = PostTypeConst_Post")
  case True
  with assms obtain pp1 s1 where
    rc: "readCategories cl profile md (readTitleIdType cl noteTitle md given) = (Inr pp1, s1)"
    and pp: "pp = (case wp_tags md of Some t \<Rightarrow> pp1\<lparr>tags := t\<rparr> | None \<Rightarrow> pp1)"
    by (auto simp: readFromFrontMatter_def Let_def dest!: andThen_Inr)
  from readCategories_fields(3)[OF rc] pp show ?thesis by (simp split: option.splits)
next
  case False
  with assms show ?thesis by (auto simp: readFromFrontMatter_def Let_def)
qed

text \<open>
  Claim C10. \<open>readFromFrontMatter\<close> applies the stored categories and tags only when
  the resolved post type is \<open>post\<close>. For any other post type the function succeeds
  without a notice and the request keeps the categories and the tags that the caller
  gave. For the type \<open>post\<close> (stored, or by default) the stored tags replace the
  caller's, stored IDs replace the caller's categories, and without stored categories
  the caller's are kept.
\<close>

theorem readFromFrontMatter_taxonomy_only_for_posts:
  "(wp_ptype md = Some t \<and> t \<noteq> PostTypeConst_Post \<longrightarrow>
      (\<exists>pp. readFromFrontMatter cl profile noteTitle md given = (Inr pp, [])
          \<and> postType pp = t \<and> categories pp = categories given \<and> tags pp = tags given))
   \<and> ((wp_ptype md = None \<or> wp_ptype md = Some PostTypeConst_Post)
        \<and> readFromFrontMatter cl profile noteTitle md given = (Inr pp', shown) \<longrightarrow>
      postType pp' = PostTypeConst_Post
      \<and> tags pp' = (case wp_tags md of Some ts \<Rightarrow> ts | None \<Rightarrow> tags given)
      \<and> (wp_categories md = None \<longrightarrow> categories pp' = categories given)
      \<and> (\<forall>i rest. wp_categories md = Some (CId i # rest) \<longrightarrow> categories pp' = CId i # rest))"
proof -
  have other: "\<exists>pp. readFromFrontMatter cl profile noteTitle md given = (Inr pp, [])
          \<and> postType pp = t \<and> categories pp = categories given \<and> tags pp = tags given"
    if "wp_ptype md = Some t" "t \<noteq> PostTypeConst_Post"
    using that readFromFrontMatter_other_type[OF that, of cl profile noteTitle given]
    by (simp add: readTitleIdType_fields)
  have post: "postType pp' = PostTypeConst_Post
      \<and> tags pp' = (case wp_tags md of Some ts \<Rightarrow> ts | None \<Rightarrow> tags given)
      \<and> (wp_categories md = None \<longrightarrow> categories pp' = categories given)
      \<and> (\<forall>i rest. wp_categories md = Some (CId i # rest) \<longrightarrow> categories pp' = CId i # rest)"
    if a: "wp_ptype md = None \<or> wp_ptype md = Some PostTypeConst_Post"
      and b: "readFromFrontMatter cl profile noteTitle md given = (Inr pp', shown)"
  proof -
    from readFromFrontMatter_post[OF a b] obtain pp1 where
      rc: "readCategories cl profile md (readTitleIdType cl noteTitle md given) = (Inr pp1, shown)"
      and pp: "pp' = (case wp_tags md of Some t \<Rightarrow> pp1\<lparr>tags := t\<rparr> | None \<Rightarrow> pp1)"
      by blast
    from a have pt: "postType (readTitleIdType cl noteTitle md given) = PostTypeConst_Post"
      by (auto simp: readTitleIdType_fields)
    have c1: "categories pp1 = categories given" if "wp_categories md = None"
      using rc that by (auto simp: readCategories_def readTitleIdType_fields)
    have c2: "categories pp1 = CId i # rest" if "wp_categories md = Some (CId i # rest)" for i rest
      using rc that by (auto simp: readCategories_def isString_def)
    from readCategories_fields[OF rc] pp pt c1 c2 show ?thesis
      by (auto simp: readTitleIdType_fields split: option.splits)
  qed
  from other post show ?thesis by blast
qed

theorem readFromFrontMatter_taxonomy_only_for_posts_witness:
  "(\<exists>pp. readFromFrontMatter exampleEnv exampleProfile ''Hello''
            (exampleMatter\<lparr>wp_ptype := Some ''page''\<rparr>) exampleParams = (Inr pp, [])
        \<and> postType pp = ''page'' \<and> categories pp = [CId (Some 5)] \<and> tags pp = [''x''])
   \<and> (\<exists>pp shown. readFromFrontMatter exampleEnv exampleProfile ''Hello''
            (exampleMatter\<lparr>wp_categories := Some [CId (Some 3)]\<rparr>) exampleParams = (Inr pp, shown)
        \<and> postType pp = ''post'' \<and> categories pp = [CId (Some 3)] \<and> tags pp = [''a''])"
proof -
  have e: "readFromFrontMatter exampleEnv exampleProfile ''Hello''
            (exampleMatter\<lparr>wp_categories := Some [CId (Some 3)]\<rparr>) exampleParams =
           (Inr \<lparr>status = ''draft'', commentStatus = ''open'', postType = ''post'',
                  categories = [CId (Some 3)], tags = [''a''], title = ''Hello'',
                  content = ''text'', postId = None, profileName = Some ''blog''\<rparr>, [])"
    by code_simp
  have p: "wp_ptype (exampleMatter\<lparr>wp_categories := Some [CId (Some 3)]\<rparr>) = Some PostTypeConst_Post"
    by (simp add: exampleMatter_def PostTypeConst_Post_def)
  have 1: "\<exists>pp. readFromFrontMatter exampleEnv exampleProfile ''Hello''
            (exampleMatter\<lparr>wp_ptype := Some ''page''\<rparr>) exampleParams = (Inr pp, [])
        \<and> postType pp = ''page'' \<and> categories pp = [CId (Some 5)] \<and> tags pp = [''x'']"
    using readFromFrontMatter_taxonomy_only_for_posts
            [where md = "exampleMatter\<lparr>wp_ptype := Some ''page''\<rparr>" and t = "''page''"
               and cl = exampleEnv and profile = exampleProfile and noteTitle = "''Hello''"
               and given = exampleParams]
    by (simp add: PostTypeConst_Post_def exampleParams_def)
  have 2: "postType \<lparr>status = ''draft'', commentStatus = ''open'', postType = ''post'',
                  categories = [CId (Some 3)], tags = [''a''], title = ''Hello'',
                  content = ''text'', postId = None, profileName = Some ''blog''\<rparr> = PostTypeConst_Post"
    using readFromFrontMatter_taxonomy_only_for_posts
            [where md = "exampleMatter\<lparr>wp_categories := Some [CId (Some 3)]\<rparr>"
               and cl = exampleEnv and profile = exampleProfile and noteTitle = "''Hello''"
               and given = exampleParams and shown = "[]"
               and pp' = "\<lparr>status = ''draft'', commentStatus = ''open'', postType = ''post'',
                  categories = [CId (Some 3)], tags = [''a''], title = ''Hello'',
                  content = ''text'', postId = None, profileName = Some ''blog''\<rparr>"] e p
    by simp
  from 1 2 e show ?thesis by (simp add: PostTypeConst_Post_def)
qed

lemma categoriesForAPI_cases:
  "wp_categories md = Some (CName n # rest) \<Longrightarrow>
     categoriesForAPI cl profile md auth =
       (map CId (fst (convertCategoryNamesToIds cl (CName n # rest) auth)),
        snd (convertCategoryNamesToIds cl (CName n # rest) auth))"
  "wp_categories md = Some (CId i # rest) \<Longrightarrow>
     categoriesForAPI cl profile md auth = (CId i # rest, [])"
  "wp_categories md = None \<or> wp_categories md = Some [] \<Longrightarrow>
     categoriesForAPI cl profile md auth =
       (case lastSelectedCategories profile of
          Some (c # cs) \<Rightarrow> categoriesForAPI cl profile (md\<lparr>wp_categories := Some (c # cs)\<rparr>) auth
        | _ \<Rightarrow> ([CId (Some 1)], []))"
  by (auto simp: categoriesForAPI_def isString_def split: option.splits list.splits prod.splits cat_item.splits)

lemma readCategories_agrees:
  assumes "wp_categories md = Some cs" "getAuth cl profile = (Inr a, s0)"
  shows "\<exists>pp shown. readCategories cl profile md pp0 = (Inr pp, shown)
            \<and> categories pp = fst (categoriesForAPI cl profile md a)
            \<and> tags pp = tags pp0 \<and> postId pp = postId pp0"
  using assms
  by (auto simp: readCategories_def categoriesForAPI_def andThen_def
        split: option.splits list.splits prod.splits)

text \<open>
  Claim C6. The representation of a non-empty category array is decided by its first
  element. When it is a string the whole array goes to \<open>convertCategoryNamesToIds\<close>;
  otherwise the array is taken as IDs, as it is. An absent or empty array gives the
  remembered selection of the profile, resolved by the same rule, or \<open>[1]\<close>. The
  selection shown in the modal is computed by the same code, and
  \<open>readFromFrontMatter\<close>, for a post with stored categories, gives the same
  categories. No ID of a name-mode array is parsed from a name: each is the ID of a
  remote category or the default 1.
\<close>

theorem categories_representation:
  "(wp_categories md = Some (CName n # rest) \<longrightarrow>
      categoriesForAPI cl profile md auth =
        (map CId (fst (convertCategoryNamesToIds cl (CName n # rest) auth)),
         snd (convertCategoryNamesToIds cl (CName n # rest) auth)))
   \<and> (wp_categories md = Some (CId i # rest) \<longrightarrow>
      categoriesForAPI cl profile md auth = (CId i # rest, []))
   \<and> (wp_categories md = None \<or> wp_categories md = Some [] \<longrightarrow>
      categoriesForAPI cl profile md auth =
        (case lastSelectedCategories profile of
           Some (c # cs) \<Rightarrow> categoriesForAPI cl profile (md\<lparr>wp_categories := Some (c # cs)\<rparr>) auth
         | _ \<Rightarrow> ([CId (Some 1)], [])))
   \<and> selectedCategories cl profile md auth = categoriesForAPI cl profile md auth
   \<and> ((wp_ptype md = None \<or> wp_ptype md = Some PostTypeConst_Post)
        \<and> wp_categories md = Some stored \<and> getAuth cl profile = (Inr auth, authShown) \<longrightarrow>
      (\<exists>pp shown. readFromFrontMatter cl profile noteTitle md given = (Inr pp, shown)
          \<and> categories pp = fst (categoriesForAPI cl profile md auth)))
   \<and> set (fst (convertCategoryNamesToIds cl items auth)) \<subseteq>
       insert (Some 1) (case getCategories cl auth of
                          None \<Rightarrow> {}
                        | Some cats \<Rightarrow> (\<lambda>cat. parseInt (term_id cat)) ` set cats)"
proof -
  have rd: "\<exists>pp shown. readFromFrontMatter cl profile noteTitle md given = (Inr pp, shown)
          \<and> categories pp = fst (categoriesForAPI cl profile md auth)"
    if a: "wp_ptype md = None \<or> wp_ptype md = Some PostTypeConst_Post"
      and b: "wp_categories md = Some stored" and c: "getAuth cl profile = (Inr auth, authShown)"
  proof -
    from a have pt: "postType (readTitleIdType cl noteTitle md given) = PostTypeConst_Post"
      by (auto simp: readTitleIdType_fields)
    from readCategories_agrees[OF b c, of "readTitleIdType cl noteTitle md given"]
    obtain pp1 shown where
      "readCategories cl profile md (readTitleIdType cl noteTitle md given) = (Inr pp1, shown)"
      "categories pp1 = fst (categoriesForAPI cl profile md auth)" by blast
    with pt show ?thesis
      by (auto simp: readFromFrontMatter_def Let_def andThen_def split: option.splits)
  qed
  show ?thesis
    using categoriesForAPI_cases[of md] rd convert_ids_from_remote[of cl items auth]
    by (simp add: selectedCategories_def)
qed

theorem categories_representation_witness:
  "categoriesForAPI exampleEnv exampleProfile exampleMatter (None, None) =
     ([CId (Some 7), CId (Some 1)], [CategoriesNotFound [CName ''Ghost'']])
   \<and> categoriesForAPI exampleEnv exampleProfile
        (exampleMatter\<lparr>wp_categories := Some [CId (Some 3), CName ''5'']\<rparr>) (None, None) =
     ([CId (Some 3), CName ''5''], [])
   \<and> categoriesForAPI exampleEnv exampleProfile emptyMatter (None, None) = ([CId (Some 1)], [])
   \<and> selectedCategories exampleEnv exampleProfile emptyMatter (None, None) = ([CId (Some 1)], [])
   \<and> (\<exists>pp shown. readFromFrontMatter exampleEnv exampleProfile ''Hello'' exampleMatter exampleParams
          = (Inr pp, shown) \<and> categories pp = [CId (Some 7), CId (Some 1)])
   \<and> set (fst (convertCategoryNamesToIds exampleEnv [CName ''5'', CName ''news''] (None, None)))
       \<subseteq> {Some 1, Some 7, Some 9}"
proof -
  have c: "convertCategoryNamesToIds exampleEnv [CName ''news'', CName ''Ghost''] (None, None) =
             ([Some 7, Some 1], [CategoriesNotFound [CName ''Ghost'']])"
    by code_simp
  have 1: "categoriesForAPI exampleEnv exampleProfile exampleMatter (None, None) =
     ([CId (Some 7), CId (Some 1)], [CategoriesNotFound [CName ''Ghost'']])
   \<and> categoriesForAPI exampleEnv exampleProfile
        (exampleMatter\<lparr>wp_categories := Some [CId (Some 3), CName ''5'']\<rparr>) (None, None) =
     ([CId (Some 3), CName ''5''], [])
   \<and> categoriesForAPI exampleEnv exampleProfile emptyMatter (None, None) = ([CId (Some 1)], [])
   \<and> selectedCategories exampleEnv exampleProfile emptyMatter (None, None) = ([CId (Some 1)], [])"
    using categories_representation
            [where md = exampleMatter and n = "''news''" and rest = "[CName ''Ghost'']"
               and cl = exampleEnv and profile = exampleProfile and auth = "(None, None)"]
          categories_representation
            [where md = "exampleMatter\<lparr>wp_categories := Some [CId (Some 3), CName ''5'']\<rparr>"
               and i = "Some 3" and rest = "[CName ''5'']"
               and cl = exampleEnv and profile = exampleProfile and auth = "(None, None)"]
          categories_representation
            [where md = emptyMatter and cl = exampleEnv and profile = exampleProfile
               and auth = "(None, None)"]
          c
    by (simp add: exampleMatter_def emptyMatter_def exampleProfile_def)
  have g: "getAuth exampleEnv exampleProfile = (Inr (Some ''user'', Some ''secret''), [])"
    by code_simp
  have v: "fst (categoriesForAPI exampleEnv exampleProfile exampleMatter (Some ''user'', Some ''secret''))
             = [CId (Some 7), CId (Some 1)]"
    by code_simp
  have m: "wp_ptype exampleMatter = Some PostTypeConst_Post"
    "wp_categories exampleMatter = Some [CName ''news'', CName ''Ghost'']"
    by (simp_all add: exampleMatter_def PostTypeConst_Post_def)
  from categories_representation
         [where md = exampleMatter and cl = exampleEnv and profile = exampleProfile
            and auth = "(Some ''user'', Some ''secret'')" and authShown = "[]"
            and stored = "[CName ''news'', CName ''Ghost'']"
            and noteTitle = "''Hello''" and given = exampleParams] g m v
  have 2: "\<exists>pp shown. readFromFrontMatter exampleEnv exampleProfile ''Hello'' exampleMatter exampleParams
          = (Inr pp, shown) \<and> categories pp = [CId (Some 7), CId (Some 1)]"
    by simp
  have r: "getCategories exampleEnv (None, None) =
             Some [\<lparr>term_id = ''7'', term_name = ''News''\<rparr>, \<lparr>term_id = ''9'', term_name = ''Tech''\<rparr>]"
    by (simp add: exampleEnv_def)
  have pi: "parseInt ''7'' = Some 7" "parseInt ''9'' = Some 9"
    by code_simp+
  from categories_representation
         [where cl = exampleEnv and auth = "(None, None)"
            and items = "[CName ''5'', CName ''news'']"] r pi
  have 3: "set (fst (convertCategoryNamesToIds exampleEnv [CName ''5'', CName ''news''] (None, None)))
       \<subseteq> {Some 1, Some 7, Some 9}"
    by simp
  from 1 2 3 show ?thesis by blast
qed

subsection \<open>The classification of an attempt\<close>

lemma checkExistingProfile_switch:
  assumes "truthy (wp_profile md)" "wp_profile md \<noteq> Some (name profile)"
    "openConfirmModal cl \<noteq> Cancel"
  shows "checkExistingProfile cl profile md =
           md\<lparr>wp_url := None,
              wp_categories := Some (case lastSelectedCategories profile of
                                       Some (c # cs) \<Rightarrow> c # cs
                                     | _ \<Rightarrow> [CId (Some 1)])\<rparr>"
  using assms
  by (simp add: checkExistingProfile_def Let_def split: option.splits list.splits)

lemma hasExistingPost_iff: "hasExistingPost md \<longleftrightarrow> (\<exists>u. wp_url md = Some u \<and> u \<noteq> [])"
  by (auto simp: hasExistingPost_def truthy_def split: option.splits)

lemma publishPostTry_branch:
  assumes "\<not> publishInProgress w" "endpoint (clientProfile w) \<noteq> []" "activeFile w = Some f"
    "getAuth cl (clientProfile w) = (Inr auth, authShown)"
    "\<not> (file_wpKeysInText f \<and> \<not> hasWpFrontmatterParsed (file_matter f))"
  shows "publishPostTry cl given w =
     (if given \<noteq> None \<or> hasExistingPost (checkExistingProfile cl (clientProfile w) (file_matter f))
      then (case publishWithParams cl given auth (file_basename f) (file_body f)
                   (checkExistingProfile cl (clientProfile w) (file_matter f))
                   (notify authShown (w\<lparr>publishInProgress := True\<rparr>)) of
              (r, w') \<Rightarrow> (Returned r, w'))
      else publishWithModal cl auth (file_basename f) (file_body f)
             (checkExistingProfile cl (clientProfile w) (file_matter f))
             (notify authShown (w\<lparr>publishInProgress := True\<rparr>)))"
  using assms by (auto simp: publishPostTry_def Let_def)

text \<open>
  Claim C9. When the stored profile name is present and differs from the active
  profile's, and the user does not keep the old profile, \<open>checkExistingProfile\<close>
  deletes \<open>wp_url\<close> from the metadata in memory and sets the categories to the
  remembered selection of the profile, or \<open>[1]\<close> when there is none. The attempt is
  then not an update: \<open>readFromFrontMatter\<close> derives no post ID, so the request
  carries the caller's, and \<open>publishPost\<close> without parameters of the caller takes the
  branch of the publish modal.
\<close>

theorem profile_switch_is_create:
  "truthy (wp_profile md) \<and> wp_profile md \<noteq> Some (name profile) \<and> openConfirmModal cl \<noteq> Cancel \<longrightarrow>
     wp_url (checkExistingProfile cl profile md) = None
     \<and> wp_categories (checkExistingProfile cl profile md) =
         Some (case lastSelectedCategories profile of
                 Some (c # cs) \<Rightarrow> c # cs
               | _ \<Rightarrow> [CId (Some 1)])
     \<and> \<not> hasExistingPost (checkExistingProfile cl profile md)
     \<and> (\<forall>pp shown. readFromFrontMatter cl profile noteTitle (checkExistingProfile cl profile md) given
                       = (Inr pp, shown) \<longrightarrow> postId pp = postId given)
     \<and> (\<not> publishInProgress w \<and> endpoint profile \<noteq> [] \<and> clientProfile w = profile
          \<and> activeFile w = Some f \<and> file_matter f = md \<and> getAuth cl profile = (Inr auth, authShown) \<longrightarrow>
        publishPostTry cl None w =
          publishWithModal cl auth (file_basename f) (file_body f)
            (checkExistingProfile cl profile md) (notify authShown (w\<lparr>publishInProgress := True\<rparr>)))"
proof (intro impI)
  assume a: "truthy (wp_profile md) \<and> wp_profile md \<noteq> Some (name profile) \<and> openConfirmModal cl \<noteq> Cancel"
  let ?md = "checkExistingProfile cl profile md"
  from a have sw: "?md = md\<lparr>wp_url := None,
              wp_categories := Some (case lastSelectedCategories profile of
                                       Some (c # cs) \<Rightarrow> c # cs
                                     | _ \<Rightarrow> [CId (Some 1)])\<rparr>"
    by (simp add: checkExistingProfile_switch)
  have u: "wp_url ?md = None" by (simp add: sw)
  have c: "wp_categories ?md = Some (case lastSelectedCategories profile of
                 Some (c # cs) \<Rightarrow> c # cs
               | _ \<Rightarrow> [CId (Some 1)])" by (simp add: sw)
  have h: "\<not> hasExistingPost ?md" using u by (simp add: hasExistingPost_iff)
  have p: "postId pp = postId given"
    if "readFromFrontMatter cl profile noteTitle ?md given = (Inr pp, shown)" for pp shown
    using readFromFrontMatter_postId[OF that] u by (simp add: readTitleIdType_fields truthy_def)
  have parsed: "hasWpFrontmatterParsed md" using a by (auto simp: hasWpFrontmatterParsed_def truthy_def)
  have t: "publishPostTry cl None w =
          publishWithModal cl auth (file_basename f) (file_body f) ?md
            (notify authShown (w\<lparr>publishInProgress := True\<rparr>))"
    if "\<not> publishInProgress w \<and> endpoint profile \<noteq> [] \<and> clientProfile w = profile
          \<and> activeFile w = Some f \<and> file_matter f = md \<and> getAuth cl profile = (Inr auth, authShown)"
    using that parsed h publishPostTry_branch[of w f cl auth authShown None] by simp
  from u c h p t show "wp_url ?md = None
     \<and> wp_categories ?md =
         Some (case lastSelectedCategories profile of
                 Some (c # cs) \<Rightarrow> c # cs
               | _ \<Rightarrow> [CId (Some 1)])
     \<and> \<not> hasExistingPost ?md
     \<and> (\<forall>pp shown. readFromFrontMatter cl profile noteTitle ?md given
                       = (Inr pp, shown) \<longrightarrow> postId pp = postId given)
     \<and> (\<not> publishInProgress w \<and> endpoint profile \<noteq> [] \<and> clientProfile w = profile
          \<and> activeFile w = Some f \<and> file_matter f = md \<and> getAuth cl profile = (Inr auth, authShown) \<longrightarrow>
        publishPostTry cl None w =
          publishWithModal cl auth (file_basename f) (file_body f)
            ?md (notify authShown (w\<lparr>publishInProgress := True\<rparr>)))"
    by blast
qed

theorem profile_switch_is_create_witness:
  "truthy (wp_profile (exampleMatter\<lparr>wp_profile := Some ''old''\<rparr>))
   \<and> wp_url (checkExistingProfile exampleEnv exampleProfile
        (exampleMatter\<lparr>wp_profile := Some ''old''\<rparr>)) = None
   \<and> wp_categories (checkExistingProfile exampleEnv exampleProfile
        (exampleMatter\<lparr>wp_profile := Some ''old''\<rparr>)) = Some [CId (Some 1)]
   \<and> \<not> hasExistingPost (checkExistingProfile exampleEnv exampleProfile
        (exampleMatter\<lparr>wp_profile := Some ''old''\<rparr>))
   \<and> (\<exists>pp shown. readFromFrontMatter exampleEnv exampleProfile ''Hello''
          (checkExistingProfile exampleEnv exampleProfile (exampleMatter\<lparr>wp_profile := Some ''old''\<rparr>))
          exampleParams = (Inr pp, shown) \<and> postId pp = None)
   \<and> publishPostTry modalEnv None switchedWorld =
       publishWithModal modalEnv (Some ''user'', Some ''secret'') ''Hello'' ''text''
         (checkExistingProfile modalEnv exampleProfile (exampleMatter\<lparr>wp_profile := Some ''old''\<rparr>))
         (notify [] (switchedWorld\<lparr>publishInProgress := True\<rparr>))
   \<and> map (\<lambda>(t, h, p). postId p) (publishCalls (snd (publishPost modalEnv None switchedWorld))) = [None]"
proof -
  let ?md = "exampleMatter\<lparr>wp_profile := Some ''old''\<rparr>"
  let ?pp = "\<lparr>status = ''draft'', commentStatus = ''open'', postType = ''post'',
         categories = [CId (Some 1)], tags = [''a''], title = ''Hello'',
         content = ''text'', postId = None, profileName = Some ''old''\<rparr>"
  have e: "readFromFrontMatter exampleEnv exampleProfile ''Hello''
          (checkExistingProfile exampleEnv exampleProfile ?md) exampleParams = (Inr ?pp, [])"
    by code_simp
  have g: "getAuth modalEnv exampleProfile = (Inr (Some ''user'', Some ''secret''), [])"
    by code_simp
  have c: "openConfirmModal exampleEnv \<noteq> Cancel" "openConfirmModal modalEnv \<noteq> Cancel"
    by (simp_all add: modalEnv_def exampleEnv_def)
  have t: "truthy (wp_profile ?md)" "wp_profile ?md \<noteq> Some (name exampleProfile)"
    by (simp_all add: truthy_def exampleProfile_def)
  have w: "\<not> publishInProgress switchedWorld" "endpoint exampleProfile \<noteq> []"
    "clientProfile switchedWorld = exampleProfile"
    "activeFile switchedWorld = Some \<lparr>file_basename = ''Hello'', file_matter = ?md,
        file_body = ''text'', file_wpKeysInText = True, file_size = 120\<rparr>"
    by (simp_all add: switchedWorld_def exampleWorld_def exampleProfile_def)
  have calls: "map (\<lambda>(t, h, p). postId p) (publishCalls (snd (publishPost modalEnv None switchedWorld))) = [None]"
    by code_simp
  have l: "lastSelectedCategories exampleProfile = None"
    by (simp add: exampleProfile_def)
  from profile_switch_is_create
         [where md = ?md and profile = exampleProfile and cl = exampleEnv
            and noteTitle = "''Hello''" and given = exampleParams] t c(1) e l
  have 1: "wp_url (checkExistingProfile exampleEnv exampleProfile ?md) = None
     \<and> wp_categories (checkExistingProfile exampleEnv exampleProfile ?md) = Some [CId (Some 1)]
     \<and> \<not> hasExistingPost (checkExistingProfile exampleEnv exampleProfile ?md)
     \<and> postId ?pp = postId exampleParams"
    by simp
  from profile_switch_is_create
         [where md = ?md and profile = exampleProfile and cl = modalEnv and w = switchedWorld
            and f = "\<lparr>file_basename = ''Hello'', file_matter = ?md,
        file_body = ''text'', file_wpKeysInText = True, file_size = 120\<rparr>"
            and auth = "(Some ''user'', Some ''secret'')" and authShown = "[]"] t c(2) w g
  have 2: "publishPostTry modalEnv None switchedWorld =
       publishWithModal modalEnv (Some ''user'', Some ''secret'') ''Hello'' ''text''
         (checkExistingProfile modalEnv exampleProfile ?md)
         (notify [] (switchedWorld\<lparr>publishInProgress := True\<rparr>))"
    by simp
  from 1 2 t(1) e calls show ?thesis by simp
qed

















subsection \<open>The publish lock\<close>

lemma publishPost_lock_held:
  "publishInProgress w \<Longrightarrow>
     publishPost cl given w =
       (Returned (Inl PublishInProgress), (showError PublishInProgress w)\<lparr>publishInProgress := False\<rparr>)"
  by (simp add: publishPost_def publishPostTry_def)

lemma publishPost_releases:
  "publishPost cl given w = (Returned r, w') \<Longrightarrow> \<not> publishInProgress w'"
  by (auto simp: publishPost_def split: prod.splits outcome.splits sum.splits)

text \<open>
  Claim C2. An attempt that starts while another one holds the lock fails at once with
  the error \<open>PublishInProgress\<close> and leaves the active file as it is; but the
  \<open>finally\<close> block runs for it too and clears the lock that the attempt in flight
  holds. The theorem evaluates \<open>publishPost\<close> on such a state; after it, a third
  attempt is admitted while the first is still in flight (\<open>third_attempt_admitted\<close>).
  An attempt that finds the lock free releases it before it returns
  (\<open>publishPost_releases\<close>).
\<close>

theorem second_attempt_releases_lock:
  "publishInProgress heldWorld
   \<and> fst (publishPost exampleEnv None heldWorld) = Returned (Inl PublishInProgress)
   \<and> activeFile (snd (publishPost exampleEnv None heldWorld)) = activeFile heldWorld
   \<and> \<not> publishInProgress (snd (publishPost exampleEnv None heldWorld))"
  by code_simp

lemma third_attempt_admitted:
  "fst (publishPost exampleEnv None (snd (publishPost exampleEnv None heldWorld))) =
     Returned (Inr \<lparr>data_postId = Some ''42'', data_postUrl = None,
                     data_categories = [CId (Some 7), CId (Some 1)]\<rparr>)"
  by code_simp

subsection \<open>The media relay\<close>

lemma remoteEmbed_shapes:
  "w \<noteq> [] \<Longrightarrow> h \<noteq> [] \<Longrightarrow>
     remoteEmbed (img\<lparr>width := Some w, height := Some h\<rparr>) url = ''![['' @ url @ ''|'' @ w @ ''x'' @ h @ '']]''"
  "w \<noteq> [] \<Longrightarrow>
     remoteEmbed (img\<lparr>width := Some w, height := None\<rparr>) url = ''![['' @ url @ ''|'' @ w @ '']]''"
  "remoteEmbed (img\<lparr>width := None, height := None\<rparr>) url = ''![['' @ url @ '']]''"
  by (simp_all add: remoteEmbed_def truthy_def)

text \<open>
  A body with one embed-style reference, no other \<open>!\<close> and no \<open>(\<close>: the scan finds
  that reference alone, with its source and its annotation.
\<close>

lemma startsWith_Cons: "startsWith (c # cs) (p # ps) \<longleftrightarrow> c = p \<and> startsWith cs ps"
  by (auto simp: startsWith_def)

lemma startsWith_Nil [simp]: "startsWith s []"
  by (simp add: startsWith_def)

lemma startsWith_append [simp]: "startsWith (p @ s) p"
  by (simp add: startsWith_def)

lemma matchEmbed_needs_bang: "c \<noteq> CHR ''!'' \<Longrightarrow> matchEmbed cl i (c # cs) = None"
  by (simp add: matchEmbed_def startsWith_Cons)

lemma matchLink_needs_bang: "c \<noteq> CHR ''!'' \<Longrightarrow> matchLink cl i (c # cs) = None"
  by (simp add: matchLink_def startsWith_Cons)

lemma execAll_no_match:
  "(\<And>i c cs. c \<in> set pre \<Longrightarrow> m i (c # cs) = None) \<Longrightarrow>
     execAll m 0 i (pre @ rest) = execAll m 0 (i + length pre) rest"
  by (induction pre arbitrary: i) auto

lemma execAll_skip:
  "k \<le> length s \<Longrightarrow> execAll m k i s = execAll m 0 (i + k) (drop k s)"
proof (induction s arbitrary: k i)
  case Nil
  then show ?case by simp
next
  case (Cons c cs)
  then show ?case by (cases k) auto
qed

lemma sizeAnnotation_rest:
  assumes "sizeAnnotation s = Some (w, h, r)"
  shows "set r \<subseteq> set s"
proof -
  from assms obtain t where s: "s = CHR ''|'' # t"
    by (auto simp: sizeAnnotation_def split: list.splits if_splits)
  have d: "set (dropWhile isDigit u) \<subseteq> set u" for u
    by (auto dest: set_dropWhileD)
  from assms s have "r = dropWhile isDigit t
      \<or> (\<exists>x r2. dropWhile isDigit t = x # r2 \<and> r = dropWhile isDigit r2)"
    by (simp add: sizeAnnotation_def Let_def split: list.splits if_splits)
  then show ?thesis
  proof
    assume "r = dropWhile isDigit t"
    with d[of t] s show ?thesis by auto
  next
    assume "\<exists>x r2. dropWhile isDigit t = x # r2 \<and> r = dropWhile isDigit r2"
    then obtain x r2 where e: "dropWhile isDigit t = x # r2" and r: "r = dropWhile isDigit r2"
      by blast
    from e d[of t] have "set r2 \<subseteq> set t" by auto
    with d[of r2] r s show ?thesis by auto
  qed
qed

lemma startsWith_paren: "startsWith r ''](''\<Longrightarrow> CHR ''('' \<in> set r"
  by (cases r; cases "tl r") (auto simp: startsWith_def)

lemma linkTail_needs_paren: "CHR ''('' \<notin> set s \<Longrightarrow> linkTail s = None"
  by (auto simp: linkTail_def split: option.splits dest!: startsWith_paren sizeAnnotation_rest)

lemma lazyLink_needs_paren: "CHR ''('' \<notin> set s \<Longrightarrow> lazyLink alt s = None"
  by (induction s arbitrary: alt) (auto simp: linkTail_needs_paren split: option.splits)

lemma matchLink_needs_paren:
  assumes "CHR ''('' \<notin> set s"
  shows "matchLink cl i s = None"
proof -
  from assms have "CHR ''('' \<notin> set (drop 2 s)"
    by (auto dest: in_set_dropD)
  then have "lazyLink [] (drop 2 s) = None"
    by (rule lazyLink_needs_paren)
  then show ?thesis
    by (simp add: matchLink_def)
qed

lemma execAll_matchLink_none: "CHR ''('' \<notin> set s \<Longrightarrow> execAll (matchLink cl) k i s = []"
proof (induction s arbitrary: k i)
  case Nil
  then show ?case by simp
next
  case (Cons c cs)
  then have "matchLink cl i (c # cs) = None" by (intro matchLink_needs_paren) simp
  with Cons show ?case by simp
qed

lemma embedTail_inside:
  "c \<noteq> CHR '']'' \<Longrightarrow> c \<noteq> CHR ''|'' \<Longrightarrow> embedTail (c # cs) = None"
  by (simp add: embedTail_def sizeAnnotation_def startsWith_Cons)

lemma lazyEmbed_source:
  assumes "\<forall>c \<in> set source. c \<noteq> CHR '']'' \<and> c \<noteq> CHR ''|'' \<and> \<not> isLineTerminator c"
    and "embedTail rest = Some (w, h, post)"
  shows "lazyEmbed acc (source @ rest) = Some (acc @ source, w, h, post)"
  using assms
proof (induction source arbitrary: acc)
  case Nil
  then show ?case by (cases rest) (auto simp: embedTail_def sizeAnnotation_def startsWith_def)
next
  case (Cons c cs)
  then show ?case by (simp add: embedTail_inside)
qed

lemma not_digit_literals: "\<not> isDigit CHR ''x''" "\<not> isDigit CHR '']''"
  by code_simp+

lemma takeWhile_digits:
  "\<forall>c \<in> set ds. isDigit c \<Longrightarrow> \<not> isDigit x \<Longrightarrow> takeWhile isDigit (ds @ x # r) = ds"
  "\<forall>c \<in> set ds. isDigit c \<Longrightarrow> \<not> isDigit x \<Longrightarrow> dropWhile isDigit (ds @ x # r) = x # r"
  by (induction ds) auto

lemma embedTail_shapes:
  "digits wd \<Longrightarrow> digits ht \<Longrightarrow>
     embedTail (''|'' @ wd @ ''x'' @ ht @ '']]'' @ post) = Some (Some wd, Some ht, post)"
  "digits wd \<Longrightarrow> embedTail (''|'' @ wd @ '']]'' @ post) = Some (Some wd, None, post)"
  "embedTail ('']]'' @ post) = Some (None, None, post)"
  by (simp_all add: embedTail_def sizeAnnotation_def digits_def takeWhile_digits
        not_digit_literals Let_def startsWith_def)

lemma embedTail_annotation:
  "validSize w h \<Longrightarrow> embedTail (annotation w h @ '']]'' @ post) = Some (w, h, post)"
  using embedTail_shapes[where post = post]
  by (auto simp: validSize_def annotation_def split: option.splits)

lemma remoteEmbed_annotation:
  "validSize (width img) (height img) \<Longrightarrow>
     remoteEmbed img url = ''![['' @ url @ annotation (width img) (height img) @ '']]''"
  by (auto simp: remoteEmbed_def validSize_def annotation_def truthy_def digits_def
        split: option.splits)

lemma take_prefix: "take (length (a @ b) - length b) (a @ b) = a"
  by simp

lemma matchEmbed_embed:
  assumes "validSize w h"
    and "\<forall>c \<in> set source. c \<noteq> CHR '']'' \<and> c \<noteq> CHR ''|'' \<and> \<not> isLineTerminator c"
  shows "matchEmbed cl i (''![['' @ source @ annotation w h @ '']]'' @ post) =
     Some (\<lparr>original = ''![['' @ source @ annotation w h @ '']]'', src = source, altText = None,
            width = w, height = h, srcIsUrl = isValidUrl cl source, startIndex = i,
            endIndex = i + 5\<rparr>,
           length (''![['' @ source @ annotation w h @ '']]''))"
proof -
  have l: "lazyEmbed [] (source @ annotation w h @ '']]'' @ post) = Some ([] @ source, w, h, post)"
    by (rule lazyEmbed_source[OF assms(2) embedTail_annotation[OF assms(1)]])
  have t: "take (length ((''![['' @ source @ annotation w h @ '']]'') @ post) - length post)
             ((''![['' @ source @ annotation w h @ '']]'') @ post)
           = ''![['' @ source @ annotation w h @ '']]''"
    by (rule take_prefix)
  from l t show ?thesis
    by (simp add: matchEmbed_def startsWith_def)
qed

lemma indexOf_first:
  assumes "CHR ''!'' \<notin> set pre" "pat = CHR ''!'' # pat'"
  shows "indexOf pat acc (pre @ pat @ post) = Some (acc @ pre, post)"
  using assms(1)
proof (induction pre arbitrary: acc)
  case Nil
  then show ?case using assms(2) by (simp add: startsWith_def)
next
  case (Cons c cs)
  then have "\<not> startsWith (c # cs @ pat @ post) pat"
    using assms(2) by (auto simp: startsWith_Cons)
  with Cons show ?case by simp
qed

lemma getImages_single_embed:
  assumes "validSize w h"
    and "\<forall>c \<in> set source. c \<noteq> CHR '']'' \<and> c \<noteq> CHR ''|'' \<and> \<not> isLineTerminator c"
    and "CHR ''!'' \<notin> set pre" "CHR ''!'' \<notin> set post"
    and "CHR ''('' \<notin> set (pre @ source @ post)"
  shows "getImages cl (pre @ ''![['' @ source @ annotation w h @ '']]'' @ post) =
     [\<lparr>original = ''![['' @ source @ annotation w h @ '']]'', src = source, altText = None,
       width = w, height = h, srcIsUrl = isValidUrl cl source, startIndex = length pre,
       endIndex = length pre + 5\<rparr>]"
proof -
  let ?orig = "''![['' @ source @ annotation w h @ '']]''"
  have noparen_ann: "CHR ''('' \<notin> set (annotation w h)"
    using assms(1) by (auto simp: annotation_def validSize_def digits_def isDigit_def split: option.splits)
  have "CHR ''('' \<notin> set (pre @ ?orig @ post)"
    using assms(5) noparen_ann by auto
  then have link: "execAll (matchLink cl) 0 0 (pre @ ?orig @ post) = []"
    by (rule execAll_matchLink_none)
  have pre: "execAll (matchEmbed cl) 0 0 (pre @ ?orig @ post)
               = execAll (matchEmbed cl) 0 (0 + length pre) (?orig @ post)"
    using assms(3) by (intro execAll_no_match matchEmbed_needs_bang) auto
  have m: "matchEmbed cl (length pre) (?orig @ post) = Some (\<lparr>original = ?orig, src = source, altText = None,
            width = w, height = h, srcIsUrl = isValidUrl cl source, startIndex = length pre,
            endIndex = length pre + 5\<rparr>, length ?orig)"
    using matchEmbed_embed[OF assms(1,2), of cl "length pre" post] by simp
  have after: "execAll (matchEmbed cl) (length ?orig - 1) (length pre + 1) (tl (?orig @ post)) = []"
  proof -
    have "length ?orig - 1 \<le> length (tl (?orig @ post))" by simp
    from execAll_skip[OF this]
    have "execAll (matchEmbed cl) (length ?orig - 1) (length pre + 1) (tl (?orig @ post))
          = execAll (matchEmbed cl) 0 (length pre + 1 + (length ?orig - 1)) (drop (length ?orig - 1) (tl (?orig @ post)))" .
    moreover have "drop (length ?orig - 1) (tl (?orig @ post)) = post" by simp
    moreover have "execAll (matchEmbed cl) 0 j (post @ []) = execAll (matchEmbed cl) 0 (j + length post) []" for j
      using assms(4) by (intro execAll_no_match matchEmbed_needs_bang) auto
    ultimately show ?thesis by simp
  qed
  have "execAll (matchEmbed cl) 0 (length pre) (?orig @ post) =
          [\<lparr>original = ?orig, src = source, altText = None,
            width = w, height = h, srcIsUrl = isValidUrl cl source, startIndex = length pre,
            endIndex = length pre + 5\<rparr>]"
    using m after by simp
  with link pre show ?thesis by (simp add: getImages_def)
qed

lemma getSubstitution_plain:
  "CHR ''$'' \<notin> set replacement \<Longrightarrow> getSubstitution matched preceding following replacement = replacement"
  by (induction matched preceding following replacement rule: getSubstitution.induct) auto

lemma replace_first:
  assumes "CHR ''!'' \<notin> set pre" "pat = CHR ''!'' # pat'" "CHR ''$'' \<notin> set replacement"
  shows "replace (pre @ pat @ post) pat replacement = pre @ replacement @ post"
  using indexOf_first[OF assms(1,2), of "[]" post] assms(3)
  by (simp add: replace_def getSubstitution_plain)

text \<open>
  For such a body, a local source whose upload succeeds and a URL without \<open>$\<close>, the
  relay replaces the reference by the remote embed with the same annotation, in each of
  the three shapes, and leaves the rest of the body as it is.
\<close>

lemma relay_single_embed:
  assumes "validSize w h"
    and "\<forall>c \<in> set source. c \<noteq> CHR '']'' \<and> c \<noteq> CHR ''|'' \<and> \<not> isLineTerminator c"
    and "CHR ''!'' \<notin> set pre" "CHR ''!'' \<notin> set post"
    and "CHR ''('' \<notin> set (pre @ source @ post)"
    and "CHR ''$'' \<notin> set url"
    and "\<not> isValidUrl cl source" "decodeURI cl source = Some decoded"
    and "getFirstLinkpathDest cl decoded (last (split decoded CHR ''/'')) = Some (fileName, bytes)"
    and "uploadMedia cl (case detectFile cl bytes of Some mimeType \<Rightarrow> mimeType
                                                   | None \<Rightarrow> ''application/octet-stream'',
                         fileName, bytes) auth = Some (UploadOK url)"
  shows "imagesLoop cl auth
           (getImages cl (pre @ ''![['' @ source @ annotation w h @ '']]'' @ post))
           (pre @ ''![['' @ source @ annotation w h @ '']]'' @ post) =
         (Inr (pre @ ''![['' @ url @ annotation w h @ '']]'' @ post), [])"
proof -
  let ?orig = "''![['' @ source @ annotation w h @ '']]''"
  let ?img = "\<lparr>original = ?orig, src = source, altText = None,
       width = w, height = h, srcIsUrl = isValidUrl cl source, startIndex = length pre,
       endIndex = length pre + 5\<rparr>"
  have g: "getImages cl (pre @ ?orig @ post) = [?img]"
    using getImages_single_embed[OF assms(1-5), of cl] by simp
  have nodollar_ann: "CHR ''$'' \<notin> set (annotation w h)"
    using assms(1) by (auto simp: annotation_def validSize_def digits_def isDigit_def split: option.splits)
  have e: "remoteEmbed ?img url = ''![['' @ url @ annotation w h @ '']]''"
    using assms(1) by (simp add: remoteEmbed_annotation)
  have nd: "CHR ''$'' \<notin> set (remoteEmbed ?img url)"
    unfolding e using assms(6) nodollar_ann by simp
  have r: "replace (pre @ ?orig @ post) ?orig (remoteEmbed ?img url)
            = pre @ remoteEmbed ?img url @ post"
    by (rule replace_first[OF assms(3) _ nd, of _ "''[['' @ source @ annotation w h @ '']]''"]) simp
  have l: "imagesLoop cl auth [?img] (pre @ ?orig @ post)
            = (Inr (replace (pre @ ?orig @ post) ?orig (remoteEmbed ?img url)), [])"
    using assms(7-10) by simp
  have "imagesLoop cl auth (getImages cl (pre @ ?orig @ post)) (pre @ ?orig @ post)
          = imagesLoop cl auth [?img] (pre @ ?orig @ post)"
    by (simp only: g)
  also have "\<dots> = (Inr (replace (pre @ ?orig @ post) ?orig (remoteEmbed ?img url)), [])"
    by (rule l)
  also have "\<dots> = (Inr (pre @ remoteEmbed ?img url @ post), [])"
    by (simp only: r)
  also have "\<dots> = (Inr (pre @ (''![['' @ url @ annotation w h @ '']]'') @ post), [])"
    by (simp only: e)
  finally show ?thesis by simp
qed

lemma embed_shapes_example:
  "fst (updatePostImages exampleEnv (None, None)
          (exampleParams\<lparr>content := ''a ![[cat.png|300x200]] b ![[cat.png|300]] c ![[cat.png]]''\<rparr>)
          exampleWorld)
     = Inr (exampleParams\<lparr>content :=
         ''a ![[https://cdn.example.com/cat.png|300x200]] b ![[https://cdn.example.com/cat.png|300]] c ![[https://cdn.example.com/cat.png]]''\<rparr>)"
  by code_simp

text \<open>
  Claim C8. The replacement for an uploaded image carries the annotation forward in the
  three shapes (\<open>remoteEmbed_shapes\<close>, \<open>relay_single_embed\<close>). But the
  replacement is passed to \<open>String.prototype.replace\<close> as it is, where \<open>$$\<close>,
  \<open>$&\<close>, \<open>$`\<close> and \<open>$'\<close> are patterns: for the body \<open>![[cat.png|300x200]]\<close>
  and an upload that returns a URL with \<open>$$\<close> in it, the body holds the URL with a
  single \<open>$\<close>. And a link-style image later on the same line makes the first regular
  expression match from the embed to the end of the link, so that the embed is replaced
  together with the link and its annotation is lost (\<open>link_after_embed_swallows_it\<close>).
\<close>

theorem dollar_patterns_in_url_are_expanded:
  "fst (updatePostImages dollarEnv (None, None)
          (exampleParams\<lparr>content := ''![[cat.png|300x200]]''\<rparr>) exampleWorld)
     = Inr (exampleParams\<lparr>content := ''![[https://cdn.example.com/a$b.png|300x200]]''\<rparr>)"
  by code_simp

lemma link_after_embed_swallows_it:
  "fst (updatePostImages exampleEnv (None, None)
          (exampleParams\<lparr>content := ''![[cat.png|300x200]] ![dog](dog.png)''\<rparr>) exampleWorld)
     = Inr (exampleParams\<lparr>content := ''![[https://cdn.example.com/dog.png]]''\<rparr>)"
  by code_simp

end
